theory Spec2Isabelle
  imports Complex_Main "HOL-Library.Multiset"
begin

section \<open>Values of the Solana SDK as the client sees them\<close>

text \<open>
  The two source files are glue around SDK objects. Each SDK value is a record or a
  datatype holding the fields the client reads; each SDK call is a function that
  either resolves with a value or rejects with an \<open>sdk_error\<close>.
\<close>

datatype PublicKey = PublicKey (toBase58: string)

record Keypair =
  kp_publicKey :: PublicKey
  kp_secretKey :: "nat list"

text \<open>
  A JavaScript \<open>number\<close>. Every finite double is a rational, so \<open>Finite\<close> covers
  them all; comparison and array indexing are exact on the value and never round.
\<close>

datatype js_number = Finite rat | NaN | PosInfinity | NegInfinity

datatype sdk_error = SdkError string

text \<open>
  What an async function of the client can throw: the rejection of an awaited SDK, RPC
  or wallet call, an \<open>Error\<close> the client builds itself (\<open>new Error(msg)\<close>), or
  a runtime error of the language.
\<close>

datatype thrown =
    Rejected sdk_error
  | Error string
  | ReferenceError string
  | TypeError string

datatype Buffer =
    Buffer_from string
  | Buffer_from_toString js_number
  | toBuffer PublicKey
  | Wire "nat list"

record TransactionInstruction =
  ix_programId :: PublicKey
  ix_keys :: "PublicKey list"
  ix_data :: "nat list"

record ProposalInstruction =
  pi_programId :: PublicKey
  pi_accounts :: "PublicKey list"
  pi_data :: "nat list"

record InitializeProposalParams =
  descriptionUrl :: string
  instruction :: ProposalInstruction
  passLpTokensToLock :: nat
  failLpTokensToLock :: nat
  nonce :: nat

record InitializeProposalAccounts =
  acc_proposal :: PublicKey
  acc_dao :: "PublicKey option"
  acc_failAmm :: PublicKey
  acc_passAmm :: PublicKey
  acc_proposer :: PublicKey

record Transaction =
  instructions :: "TransactionInstruction list"
  feePayer :: "PublicKey option"
  recentBlockhash :: "string option"
  signatures :: "PublicKey list"

record BlockhashWithExpiryBlockHeight =
  blockhash :: string
  lastValidBlockHeight :: nat

record SendOptions =
  skipPreflight :: bool

record BlockheightBasedTransactionConfirmationStrategy =
  cs_signature :: string
  cs_blockhash :: string
  cs_lastValidBlockHeight :: nat

datatype Commitment = Processed | Confirmed | Finalized

datatype SwapType = Buy | Sell

text \<open>\<open>baseMint.supply\<close> is compared with \<open>!== 0\<close>: only the number zero is equal to it.\<close>

datatype supply_value = NumberValue js_number | BNValue int

record Mint =
  mint_supply :: supply_value

record Amm =
  amm_publicKey :: PublicKey

record Token =
  tok_name :: string
  tok_symbol :: string
  tok_publicKey :: PublicKey
  tok_decimals :: nat

text \<open>
  A \<open>TokensDict\<close> is an object used as a dictionary: its keys (token names, never
  array indices) in insertion order, a key possibly holding \<open>undefined\<close>
  (\<open>None\<close>).
\<close>

type_synonym TokensDict = "(string \<times> Token option) list"

record DaoState =
  treasury :: PublicKey
  tokenMint :: PublicKey
  twapInitialObservation :: nat
  twapMaxObservationChangePerUpdate :: nat

record DaoAccount =
  dao_publicKey :: PublicKey
  dao_account :: DaoState

section \<open>Effects: the calls a run makes, in order\<close>

datatype call =
    CreateInstruction Keypair nat
  | InitializeProposalInstruction InitializeProposalParams InitializeProposalAccounts
  | GetLatestBlockhash
  | SignTransaction Transaction Keypair
  | SignAllTransactions "Transaction list"
  | Serialize Transaction
  | SendRawTransaction Buffer SendOptions
  | ConfirmTransaction BlockheightBasedTransactionConfirmationStrategy Commitment
  | MintFetch PublicKey
  | FindProgramAddress "Buffer list" PublicKey
  | AmmClient_createAmm PublicKey PublicKey PublicKey nat string string js_number
      PublicKey PublicKey js_number nat
  | AmmClient_getAmm PublicKey
  | AmmClient_swap PublicKey SwapType js_number js_number

datatype outcome = Resolves | Rejects sdk_error

datatype event =
    Called call outcome
  | ConsoleError string thrown

text \<open>
  A run of an async function: the events it caused, and how its promise settled
  (\<open>Inl\<close> rejected with the thrown value, \<open>Inr\<close> resolved).
\<close>

type_synonym 'a run = "event list \<times> (thrown + 'a)"

definition await :: "call \<Rightarrow> sdk_error + 'a \<Rightarrow> 'a run" where
  "await c r =
     (case r of
        Inl e \<Rightarrow> ([Called c (Rejects e)], Inl (Rejected e))
      | Inr v \<Rightarrow> ([Called c Resolves], Inr v))"

definition andThen :: "'a run \<Rightarrow> ('a \<Rightarrow> 'b run) \<Rightarrow> 'b run" where
  "andThen m f =
     (case m of
        (t, Inl e) \<Rightarrow> (t, Inl e)
      | (t, Inr v) \<Rightarrow> (case f v of (t', r) \<Rightarrow> (t @ t', r)))"

definition tryCatch :: "'a run \<Rightarrow> (thrown \<Rightarrow> 'a run) \<Rightarrow> 'a run" where
  "tryCatch m handler =
     (case m of
        (t, Inl e) \<Rightarrow> (case handler e of (t', r) \<Rightarrow> (t @ t', r))
      | (t, Inr v) \<Rightarrow> (t, Inr v))"

definition returnUndefined :: "unit run" where
  "returnUndefined = ([], Inr ())"

definition throw :: "thrown \<Rightarrow> 'a run" where
  "throw e = ([], Inl e)"

section \<open>The SDK objects the client calls\<close>

record Program =
  programId :: PublicKey
  account_proposal_createInstruction :: "Keypair \<Rightarrow> nat \<Rightarrow> sdk_error + TransactionInstruction"
  methods_initializeProposal_instruction ::
    "InitializeProposalParams \<Rightarrow> InitializeProposalAccounts \<Rightarrow> sdk_error + TransactionInstruction"
  account_mint_fetch :: "PublicKey \<Rightarrow> sdk_error + Mint"

record Connection =
  getLatestBlockhash :: "sdk_error + BlockhashWithExpiryBlockHeight"
  sendRawTransaction :: "Buffer \<Rightarrow> SendOptions \<Rightarrow> sdk_error + string"
  confirmTransaction ::
    "BlockheightBasedTransactionConfirmationStrategy \<Rightarrow> Commitment \<Rightarrow> sdk_error + unit"

record WalletContextState =
  w_publicKey :: "PublicKey option"
  w_signAllTransactions :: "(Transaction list \<Rightarrow> sdk_error + Transaction list) option"

record AmmClient =
  amm_createAmm ::
    "PublicKey \<Rightarrow> PublicKey \<Rightarrow> PublicKey \<Rightarrow> nat \<Rightarrow> string \<Rightarrow> string \<Rightarrow> js_number \<Rightarrow>
     PublicKey \<Rightarrow> PublicKey \<Rightarrow> js_number \<Rightarrow> nat \<Rightarrow> sdk_error + unit"
  amm_getAmm :: "PublicKey \<Rightarrow> sdk_error + Amm"
  amm_swap :: "PublicKey \<Rightarrow> SwapType \<Rightarrow> js_number \<Rightarrow> js_number \<Rightarrow> sdk_error + unit"

text \<open>\<open>daoTokens?.baseToken\<close>: undefined when the dictionary or the key is.\<close>

definition tokenOf :: "TokensDict option \<Rightarrow> string \<Rightarrow> Token option" where
  "tokenOf d k =
     (case d of
        None \<Rightarrow> None
      | Some m \<Rightarrow> (case map_of m k of None \<Rightarrow> None | Some v \<Rightarrow> v))"

section \<open>useInitializeProposal\<close>

text \<open>
  What the hook closes over. \<open>Keypair_generate\<close> is the keypair the call to
  \<open>Keypair.generate()\<close> returns. \<open>Transaction_sign\<close> and
  \<open>Transaction_serialize\<close> are the methods \<open>sign\<close> and \<open>serialize\<close> of the
  web3.js \<open>Transaction\<close>; what they put into the transaction and when they throw is
  the library's, so they are taken as they come. \<open>settles_first\<close> says which of the
  rejected promises given to \<open>Promise.all\<close> was rejected first in time.

  \<open>failAmm\<close> and \<open>passAmm\<close> are free identifiers of the module (lines 41-42).
  \<open>None\<close> is an identifier with no binding, whose evaluation throws a
  ReferenceError. The file as written declares and imports neither, so the module as
  it stands is the one with \<open>failAmm = None\<close> and \<open>passAmm = None\<close>; \<open>Some\<close>
  is the module once a declaration is supplied.
\<close>

record hook_deps =
  connection :: Connection
  program :: "Program option"
  daoKey :: "PublicKey option"
  daoTreasuryKey :: "PublicKey option"
  hook_daoTokens :: "TokensDict option"
  wallet :: "WalletContextState option"
  Keypair_generate :: Keypair
  failAmm :: "PublicKey option"
  passAmm :: "PublicKey option"
  Transaction_sign :: "Transaction \<Rightarrow> Keypair \<Rightarrow> sdk_error + Transaction"
  Transaction_serialize :: "Transaction \<Rightarrow> sdk_error + Buffer"
  settles_first :: "thrown list \<Rightarrow> nat"

definition new_Transaction :: Transaction where
  "new_Transaction =
     \<lparr>instructions = [], feePayer = None, recentBlockhash = None, signatures = []\<rparr>"

definition Transaction_add :: "Transaction \<Rightarrow> TransactionInstruction list \<Rightarrow> Transaction" where
  "Transaction_add tx ixs = tx\<lparr>instructions := instructions tx @ ixs\<rparr>"

text \<open>Lines 57-59: the part of each task that runs before its first await settles.\<close>

definition sendTask :: "hook_deps \<Rightarrow> Transaction \<Rightarrow> string run" where
  "sendTask h tx =
     andThen (await (Serialize tx) (Transaction_serialize h tx)) (\<lambda>raw.
       await (SendRawTransaction raw \<lparr>skipPreflight = True\<rparr>)
         (sendRawTransaction (connection h) raw \<lparr>skipPreflight = True\<rparr>))"

text \<open>
  Lines 60-67: the rest of a task, given how its first part ended. A task whose send
  rejected has no confirmation step; its rejection is counted with the sends.
\<close>

definition confirmTask ::
  "hook_deps \<Rightarrow> BlockhashWithExpiryBlockHeight \<Rightarrow> string run \<Rightarrow> unit run" where
  "confirmTask h latestBlockhash sent =
     (case snd sent of
        Inl e \<Rightarrow> ([], Inr ())
      | Inr sig \<Rightarrow>
          (let strategy =
             \<lparr>cs_signature = sig,
              cs_blockhash = blockhash latestBlockhash,
              cs_lastValidBlockHeight = lastValidBlockHeight latestBlockhash\<rparr>
           in await (ConfirmTransaction strategy Confirmed)
                (confirmTransaction (connection h) strategy Confirmed)))"

definition rejections :: "'a run list \<Rightarrow> thrown list" where
  "rejections rs = concat (map (\<lambda>r. case snd r of Inl e \<Rightarrow> [e] | Inr _ \<Rightarrow> []) rs)"

text \<open>
  \<open>Promise.all\<close> resolves when every promise has, and rejects with the rejection
  that came first in time. Which one that is, the program does not decide:
  \<open>pick\<close> chooses it among the rejections.
\<close>

definition Promise_all :: "(thrown list \<Rightarrow> nat) \<Rightarrow> thrown list \<Rightarrow> thrown + unit" where
  "Promise_all pick rejected =
     (case rejected of
        [] \<Rightarrow> Inr ()
      | _ # _ \<Rightarrow> Inl (rejected ! (pick rejected mod length rejected)))"

text \<open>
  Lines 55-69, \<open>Promise.all(signedTxs.map(async ...))\<close>. \<open>map\<close> starts every task
  in index order, each running to its \<open>sendRawTransaction\<close>; the confirmations follow
  when the sends have settled (in the trace: in index order).
\<close>

definition sendAndConfirmAll ::
  "hook_deps \<Rightarrow> BlockhashWithExpiryBlockHeight \<Rightarrow> Transaction list \<Rightarrow> unit run" where
  "sendAndConfirmAll h latestBlockhash signedTxs =
     (let sends = map (sendTask h) signedTxs;
          confirms = map (confirmTask h latestBlockhash) sends
      in (concat (map fst sends) @ concat (map fst confirms),
          Promise_all (settles_first h) (rejections sends @ rejections confirms)))"

text \<open>Lines 38-44: the object literal reads \<open>failAmm\<close>, then \<open>passAmm\<close>.\<close>

definition proposalAccounts ::
  "hook_deps \<Rightarrow> Keypair \<Rightarrow> PublicKey \<Rightarrow> InitializeProposalAccounts run" where
  "proposalAccounts h proposalKeypair walletKey =
     (case failAmm h of
        None \<Rightarrow> throw (ReferenceError ''failAmm is not defined'')
      | Some fa \<Rightarrow>
          (case passAmm h of
             None \<Rightarrow> throw (ReferenceError ''passAmm is not defined'')
           | Some pa \<Rightarrow>
               ([], Inr \<lparr>acc_proposal = kp_publicKey proposalKeypair,
                         acc_dao = daoKey h,
                         acc_failAmm = fa,
                         acc_passAmm = pa,
                         acc_proposer = walletKey\<rparr>)))"

definition proposalParams :: "string \<Rightarrow> ProposalInstruction \<Rightarrow> InitializeProposalParams" where
  "proposalParams url ins =
     \<lparr>descriptionUrl = url, instruction = ins,
      passLpTokensToLock = 0, failLpTokensToLock = 0, nonce = 0\<rparr>"

text \<open>Lines 27-69, with the values the guard of lines 16-25 found.\<close>

definition initializeProposal_body ::
  "hook_deps \<Rightarrow> Program \<Rightarrow> PublicKey \<Rightarrow> (Transaction list \<Rightarrow> sdk_error + Transaction list) \<Rightarrow>
   string \<Rightarrow> ProposalInstruction \<Rightarrow> unit run" where
  "initializeProposal_body h prog walletKey signAllTransactions url ins =
     (let proposalKeypair = Keypair_generate h in
      andThen (await (CreateInstruction proposalKeypair 1500)
                 (account_proposal_createInstruction prog proposalKeypair 1500)) (\<lambda>createIx.
      andThen (proposalAccounts h proposalKeypair walletKey) (\<lambda>accts.
      andThen (await (InitializeProposalInstruction (proposalParams url ins) accts)
                 (methods_initializeProposal_instruction prog (proposalParams url ins) accts))
        (\<lambda>initIx.
      let initProposalTx = Transaction_add new_Transaction [createIx, initIx] in
      andThen (await GetLatestBlockhash (getLatestBlockhash (connection h))) (\<lambda>latestBlockhash.
      let tx1 = initProposalTx\<lparr>feePayer := Some walletKey\<rparr>;
          tx2 = tx1\<lparr>recentBlockhash := Some (blockhash latestBlockhash)\<rparr>
      in
      andThen (await (SignTransaction tx2 proposalKeypair)
                 (Transaction_sign h tx2 proposalKeypair)) (\<lambda>tx3.
      andThen (await (SignAllTransactions [tx3]) (signAllTransactions [tx3])) (\<lambda>signedTxs.
      sendAndConfirmAll h latestBlockhash signedTxs)))))))"

definition initializeProposal :: "hook_deps \<Rightarrow> string \<Rightarrow> ProposalInstruction \<Rightarrow> unit run" where
  "initializeProposal h url ins =
     (case wallet h of
        None \<Rightarrow> returnUndefined
      | Some w \<Rightarrow>
     (case w_publicKey w of
        None \<Rightarrow> returnUndefined
      | Some walletKey \<Rightarrow>
     (case w_signAllTransactions w of
        None \<Rightarrow> returnUndefined
      | Some signAllTransactions \<Rightarrow>
     (case tokenOf (hook_daoTokens h) ''baseToken'' of
        None \<Rightarrow> returnUndefined
      | Some baseToken \<Rightarrow>
     (case tokenOf (hook_daoTokens h) ''quoteToken'' of
        None \<Rightarrow> returnUndefined
      | Some quoteToken \<Rightarrow>
     (case daoTreasuryKey h of
        None \<Rightarrow> returnUndefined
      | Some _ \<Rightarrow>
     (case program h of
        None \<Rightarrow> returnUndefined
      | Some prog \<Rightarrow>
          initializeProposal_body h prog walletKey signAllTransactions url ins)))))))"

section \<open>AutocratProvider\<close>

subsection \<open>The active DAO (lines 97-110)\<close>

text \<open>An entry of the constant \<open>DAOS\<close>; the provider reads its \<open>publicKey\<close> only.\<close>

record DaoListing =
  listing_publicKey :: PublicKey

text \<open>
  \<open>daos\<close> is \<open>None\<close> until the query has data. \<open>find\<close> runs its callback on
  the elements in order, and the callback reads \<open>DAOS[0].publicKey\<close>: with an empty
  \<open>DAOS\<close> that read throws as soon as there is an element to test.
\<close>

definition selectedDao :: "DaoListing list \<Rightarrow> DaoAccount list option \<Rightarrow> thrown + DaoAccount option" where
  "selectedDao DAOS daos =
     (case daos of
        None \<Rightarrow> Inr None
      | Some [] \<Rightarrow> Inr None
      | Some (d # ds) \<Rightarrow>
          (case DAOS of
             [] \<Rightarrow> Inl (TypeError ''Cannot read properties of undefined (reading publicKey)'')
           | d0 # _ \<Rightarrow>
               (case find (\<lambda>dao. toBase58 (dao_publicKey dao) = toBase58 (listing_publicKey d0))
                       (d # ds) of
                  Some found \<Rightarrow> Inr (Some found)
                | None \<Rightarrow> Inr (Some d))))"

record ActiveDao =
  ctx_daoKey :: "PublicKey option"
  ctx_daoTreasuryKey :: "PublicKey option"
  ctx_daoState :: "DaoState option"

definition activeDao :: "DaoAccount option \<Rightarrow> ActiveDao" where
  "activeDao selected =
     \<lparr>ctx_daoKey = map_option dao_publicKey selected,
      ctx_daoTreasuryKey = map_option (\<lambda>d. treasury (dao_account d)) selected,
      ctx_daoState = map_option dao_account selected\<rparr>"

subsection \<open>Token resolution (lines 122-135 and 189-222)\<close>

text \<open>
  The members of \<open>Networks\<close> that the provider names; \<open>OtherNetwork\<close> stands for
  any further member, which the \<open>switch\<close> sends to its default branch. The test
  \<open>network === 'devnet'\<close> of line 207 is read as \<open>network = Devnet\<close>.
\<close>

datatype Networks = Devnet | Mainnet | Custom | OtherNetwork

text \<open>Assignment of one key of an object: in place when the key exists, last otherwise.\<close>

fun assign :: "'k \<Rightarrow> 'v \<Rightarrow> ('k \<times> 'v) list \<Rightarrow> ('k \<times> 'v) list" where
  "assign k v [] = [(k, v)]"
| "assign k v ((k', v') # ps) = (if k' = k then (k', v) # ps else (k', v') # assign k v ps)"

text \<open>The object spread \<open>{ ...a, ...b }\<close>.\<close>

definition spread :: "('k \<times> 'v) list \<Rightarrow> ('k \<times> 'v) list \<Rightarrow> ('k \<times> 'v) list" where
  "spread a b = foldl (\<lambda>acc (k, v). assign k v acc) a b"

record TokenConstants =
  staticTokens :: TokensDict
  devnetTokens :: TokensDict
  mainnetTokens :: TokensDict

definition defaultTokens :: "TokenConstants \<Rightarrow> Networks \<Rightarrow> TokensDict" where
  "defaultTokens c network =
     (case network of
        Devnet \<Rightarrow> spread (staticTokens c) (devnetTokens c)
      | Mainnet \<Rightarrow> spread (staticTokens c) (mainnetTokens c)
      | Custom \<Rightarrow> spread (spread (staticTokens c) (mainnetTokens c)) (devnetTokens c)
      | _ \<Rightarrow> spread (spread (staticTokens c) (mainnetTokens c)) (devnetTokens c))"

text \<open>
  Lines 196-198: \<open>Object.entries(defaultTokens).filter(...)\<close>. The callback reads
  \<open>token[1].publicKey\<close>, which throws on an entry holding \<open>undefined\<close>.
\<close>

fun matchingTokens :: "PublicKey \<Rightarrow> TokensDict \<Rightarrow> thrown + (string \<times> Token) list" where
  "matchingTokens mint [] = Inr []"
| "matchingTokens mint ((k, None) # es) =
     Inl (TypeError ''Cannot read properties of undefined (reading publicKey)'')"
| "matchingTokens mint ((k, Some t) # es) =
     (case matchingTokens mint es of
        Inl e \<Rightarrow> Inl e
      | Inr ms \<Rightarrow>
          Inr (if toBase58 (tok_publicKey t) = toBase58 mint then (k, t) # ms else ms))"

definition member_of :: "TokensDict \<Rightarrow> string \<Rightarrow> Token option" where
  "member_of d k = (case map_of d k of None \<Rightarrow> None | Some v \<Rightarrow> v)"

text \<open>
  \<open>JSON.stringify\<close> of a dictionary writes the keys in order and leaves out those
  holding \<open>undefined\<close>; two dictionaries give the same text when these lists agree.
\<close>

definition JSON_stringify :: "TokensDict \<Rightarrow> (string \<times> Token) list" where
  "JSON_stringify d = concat (map (\<lambda>(k, v). case v of None \<Rightarrow> [] | Some t \<Rightarrow> [(k, t)]) d)"

text \<open>
  The effect of lines 191-222 on the stored \<open>daoTokens\<close>: how the effect ends, and
  the stored value after it.
\<close>

definition resolveTokens ::
  "TokenConstants \<Rightarrow> Networks \<Rightarrow> string \<Rightarrow> DaoState option \<Rightarrow> TokensDict option \<Rightarrow>
   (thrown + unit) \<times> TokensDict option" where
  "resolveTokens c network label daoState daoTokens =
     (case daoState of
        None \<Rightarrow> (Inr (), daoTokens)
      | Some st \<Rightarrow>
          (case matchingTokens (tokenMint st) (defaultTokens c network) of
             Inl e \<Rightarrow> (Inl e, daoTokens)
           | Inr [] \<Rightarrow>
               (Inl (TypeError ''Cannot read properties of undefined (reading 1)''), daoTokens)
           | Inr (daoToken0 # _) \<Rightarrow>
               (let baseToken = [(''baseToken'', Some (snd daoToken0))];
                    quoteToken =
                      (if label \<noteq> ''V0.3'' \<and> network = Devnet
                       then [(''quoteToken'', member_of (defaultTokens c network) ''musdc'')]
                       else [(''quoteToken'', member_of (defaultTokens c network) ''usdc'')]);
                    usedTokens = spread (spread (staticTokens c) baseToken) quoteToken;
                    mergedTokens =
                      spread (case daoTokens of None \<Rightarrow> [] | Some d \<Rightarrow> d) usedTokens
                in if JSON_stringify mergedTokens \<noteq> JSON_stringify usedTokens
                   then (Inr (), Some mergedTokens)
                   else (Inr (), daoTokens))))"

subsection \<open>The proposal list (lines 224-235)\<close>

record ProposalAccount =
  number :: nat
  proposer :: PublicKey

text \<open>
  A fetched record: \<open>publicKey\<close> and \<open>account\<close>, and \<open>title\<close> and \<open>description\<close>
  when the record carries them as fields of its own.
\<close>

record ProposalRecord =
  rec_publicKey :: PublicKey
  rec_account :: ProposalAccount
  rec_title :: "string option"
  rec_description :: "string option"

record Proposal =
  title :: string
  description :: string
  publicKey :: PublicKey
  account :: ProposalAccount

text \<open>
  \<open>Array.prototype.sort\<close> with a comparator, as the engine sorts a short array: it
  takes the elements from left to right and inserts each into the sorted part before
  it, in front of the first element that the comparator puts behind the new one (a
  negative result). The comparator of line 226 is never 0 and is negative on equal
  numbers, so a record ends up in front of the earlier records with its number. Only
  this order among records with equal numbers depends on the engine's algorithm.
\<close>

fun insert_by :: "('a \<Rightarrow> 'a \<Rightarrow> int) \<Rightarrow> 'a \<Rightarrow> 'a list \<Rightarrow> 'a list" where
  "insert_by cmp pivot [] = [pivot]"
| "insert_by cmp pivot (y # ys) =
     (if cmp pivot y < 0 then pivot # y # ys else y # insert_by cmp pivot ys)"

definition Array_sort :: "('a \<Rightarrow> 'a \<Rightarrow> int) \<Rightarrow> 'a list \<Rightarrow> 'a list" where
  "Array_sort cmp xs = foldl (\<lambda>sorted pivot. insert_by cmp pivot sorted) [] xs"

definition byNumberDescending :: "ProposalRecord \<Rightarrow> ProposalRecord \<Rightarrow> int" where
  "byNumberDescending a b = (if number (rec_account a) < number (rec_account b) then 1 else - 1)"

text \<open>
  The decimal digits of a number, as a template literal writes an unsigned integer
  (\<open>account.number\<close> is a counter of the on-chain account, far below the size where
  JavaScript changes notation).
\<close>

fun digits :: "nat \<Rightarrow> string" where
  "digits n = (if n < 10 then [char_of (48 + n)] else digits (n div 10) @ [char_of (48 + n mod 10)])"

declare digits.simps [simp del]

text \<open>Lines 229-233: the defaults first, the record's own fields over them.\<close>

definition withDefaults :: "ProposalRecord \<Rightarrow> Proposal" where
  "withDefaults p =
     \<lparr>title = (case rec_title p of
                 None \<Rightarrow> ''Proposal '' @ digits (number (rec_account p))
               | Some t \<Rightarrow> t),
      description = (case rec_description p of None \<Rightarrow> [] | Some d \<Rightarrow> d),
      publicKey = rec_publicKey p,
      account = rec_account p\<rparr>"

definition proposals :: "ProposalRecord list option \<Rightarrow> Proposal list" where
  "proposals allProposals =
     map withDefaults
       (Array_sort byNumberDescending (case allProposals of None \<Rightarrow> [] | Some ps \<Rightarrow> ps))"

subsection \<open>setProgramVersion (lines 330-333)\<close>

record ProgramVersion =
  label :: string
  version_programId :: PublicKey









subsection \<open>createAmm and swap (lines 237-317)\<close>

record provider_state =
  autocratProgram :: "Program option"
  daoState :: "DaoState option"
  daoTokens :: "TokensDict option"
  provider_wallet :: "WalletContextState option"
  ammClient :: AmmClient
  findProgramAddress :: "Buffer list \<Rightarrow> PublicKey \<Rightarrow> sdk_error + PublicKey \<times> nat"
  AMM_PROGRAM_ID :: PublicKey

text \<open>Lines 265-286.\<close>

definition createAmm_try ::
  "provider_state \<Rightarrow> Program \<Rightarrow> DaoState \<Rightarrow> Token \<Rightarrow> Token \<Rightarrow>
   string \<Rightarrow> string \<Rightarrow> js_number \<Rightarrow> js_number \<Rightarrow> unit run" where
  "createAmm_try s prog st baseToken quoteToken pof uri proposalNumber a =
     tryCatch
       (andThen
          (await (FindProgramAddress
                    [Buffer_from ''proposal'', Buffer_from_toString proposalNumber] (programId prog))
             (findProgramAddress s
                [Buffer_from ''proposal'', Buffer_from_toString proposalNumber] (programId prog)))
          (\<lambda>(proposalAddress, bump).
             await (AmmClient_createAmm proposalAddress
                      (tok_publicKey baseToken) (tok_publicKey quoteToken)
                      (twapInitialObservation st) pof uri proposalNumber
                      (tok_publicKey baseToken) (tok_publicKey quoteToken)
                      a (twapMaxObservationChangePerUpdate st))
               (amm_createAmm (ammClient s) proposalAddress
                      (tok_publicKey baseToken) (tok_publicKey quoteToken)
                      (twapInitialObservation st) pof uri proposalNumber
                      (tok_publicKey baseToken) (tok_publicKey quoteToken)
                      a (twapMaxObservationChangePerUpdate st))))
       (\<lambda>err. ([ConsoleError ''Error creating AMM:'' err], Inl err))"

definition createAmm ::
  "provider_state \<Rightarrow> string \<Rightarrow> string \<Rightarrow> js_number \<Rightarrow> string \<Rightarrow> js_number \<Rightarrow> unit run" where
  "createAmm s pof uri proposalNumber symbol a =
     (case autocratProgram s of
        None \<Rightarrow> returnUndefined
      | Some prog \<Rightarrow>
     (case daoState s of
        None \<Rightarrow> returnUndefined
      | Some st \<Rightarrow>
     (case tokenOf (daoTokens s) ''baseToken'' of
        None \<Rightarrow> returnUndefined
      | Some baseToken \<Rightarrow>
     (case tokenOf (daoTokens s) ''quoteToken'' of
        None \<Rightarrow> returnUndefined
      | Some quoteToken \<Rightarrow>
     (case provider_wallet s of
        None \<Rightarrow> returnUndefined
      | Some _ \<Rightarrow>
          if tok_publicKey baseToken = tok_publicKey quoteToken
          then throw (Error ''Base and quote mints must be different'')
          else
            andThen (await (MintFetch (tok_publicKey baseToken))
                       (account_mint_fetch prog (tok_publicKey baseToken))) (\<lambda>baseMint.
              if mint_supply baseMint \<noteq> NumberValue (Finite 0)
              then throw (Error ''Base mint must have a supply of 0'')
              else createAmm_try s prog st baseToken quoteToken pof uri proposalNumber a))))))"

definition swap :: "provider_state \<Rightarrow> SwapType \<Rightarrow> js_number \<Rightarrow> js_number \<Rightarrow> unit run" where
  "swap s swapType inputAmount outputAmountMin =
     (case autocratProgram s of
        None \<Rightarrow> returnUndefined
      | Some prog \<Rightarrow>
     (case daoState s of
        None \<Rightarrow> returnUndefined
      | Some st \<Rightarrow>
     (case tokenOf (daoTokens s) ''baseToken'' of
        None \<Rightarrow> returnUndefined
      | Some baseToken \<Rightarrow>
     (case tokenOf (daoTokens s) ''quoteToken'' of
        None \<Rightarrow> returnUndefined
      | Some quoteToken \<Rightarrow>
     (case provider_wallet s of
        None \<Rightarrow> returnUndefined
      | Some _ \<Rightarrow>
          andThen
            (await (FindProgramAddress
                      [Buffer_from ''amm__'', toBuffer (tok_publicKey baseToken),
                       toBuffer (tok_publicKey quoteToken)] (AMM_PROGRAM_ID s))
               (findProgramAddress s
                      [Buffer_from ''amm__'', toBuffer (tok_publicKey baseToken),
                       toBuffer (tok_publicKey quoteToken)] (AMM_PROGRAM_ID s)))
            (\<lambda>(ammPublicKey, bump).
          andThen (await (AmmClient_getAmm ammPublicKey) (amm_getAmm (ammClient s) ammPublicKey))
            (\<lambda>amm.
          tryCatch
            (await (AmmClient_swap (amm_publicKey amm) swapType inputAmount outputAmountMin)
               (amm_swap (ammClient s) (amm_publicKey amm) swapType inputAmount outputAmountMin))
            (\<lambda>err. ([ConsoleError ''Error swapping tokens:'' err], Inl err)))))))))"

section \<open>Concrete values\<close>

text \<open>A small deployment, used to run the definitions on concrete inputs.\<close>

definition META :: Token where
  "META = \<lparr>tok_name = ''Meta'', tok_symbol = ''META'',
            tok_publicKey = PublicKey ''metaMint'', tok_decimals = 9\<rparr>"

definition USDC :: Token where
  "USDC = \<lparr>tok_name = ''USD Coin'', tok_symbol = ''USDC'',
            tok_publicKey = PublicKey ''usdcMint'', tok_decimals = 6\<rparr>"

definition WSOL :: Token where
  "WSOL = \<lparr>tok_name = ''Solana'', tok_symbol = ''SOL'',
            tok_publicKey = PublicKey ''wsolMint'', tok_decimals = 9\<rparr>"

definition example_constants :: TokenConstants where
  "example_constants =
     \<lparr>staticTokens = [(''wsol'', Some WSOL)],
      devnetTokens = [(''meta'', Some META), (''musdc'', Some USDC)],
      mainnetTokens = [(''meta'', Some META), (''usdc'', Some USDC)]\<rparr>"

definition example_daoState :: DaoState where
  "example_daoState =
     \<lparr>treasury = PublicKey ''treasury'', tokenMint = PublicKey ''metaMint'',
      twapInitialObservation = 100, twapMaxObservationChangePerUpdate = 5\<rparr>"

definition example_daos :: "DaoAccount list" where
  "example_daos =
     [\<lparr>dao_publicKey = PublicKey ''daoA'', dao_account = example_daoState\<rparr>,
      \<lparr>dao_publicKey = PublicKey ''daoB'',
       dao_account = example_daoState\<lparr>treasury := PublicKey ''treasuryB''\<rparr>\<rparr>]"

definition example_tokens :: TokensDict where
  "example_tokens = [(''baseToken'', Some META), (''quoteToken'', Some USDC)]"



definition example_records :: "ProposalRecord list" where
  "example_records =
     [\<lparr>rec_publicKey = PublicKey ''p3'',
       rec_account = \<lparr>number = 3, proposer = PublicKey ''alice''\<rparr>,
       rec_title = None, rec_description = None\<rparr>,
      \<lparr>rec_publicKey = PublicKey ''p12'',
       rec_account = \<lparr>number = 12, proposer = PublicKey ''bob''\<rparr>,
       rec_title = None, rec_description = None\<rparr>]"

definition example_program :: Program where
  "example_program =
     \<lparr>programId = PublicKey ''autocrat'',
      account_proposal_createInstruction =
        (\<lambda>signer size. Inr \<lparr>ix_programId = PublicKey ''system'',
                             ix_keys = [kp_publicKey signer], ix_data = [size]\<rparr>),
      methods_initializeProposal_instruction =
        (\<lambda>params accts. Inr \<lparr>ix_programId = PublicKey ''autocrat'',
                              ix_keys = [acc_proposal accts, acc_proposer accts],
                              ix_data = [nonce params]\<rparr>),
      account_mint_fetch = (\<lambda>mint. Inr \<lparr>mint_supply = NumberValue (Finite 0)\<rparr>)\<rparr>"

definition example_connection :: Connection where
  "example_connection =
     \<lparr>getLatestBlockhash = Inr \<lparr>blockhash = ''hash1'', lastValidBlockHeight = 200\<rparr>,
      sendRawTransaction = (\<lambda>raw opts. Inr ''sig1''),
      confirmTransaction = (\<lambda>strategy commitment. Inr ())\<rparr>"

definition example_wallet :: WalletContextState where
  "example_wallet =
     \<lparr>w_publicKey = Some (PublicKey ''alice''),
      w_signAllTransactions =
        Some (\<lambda>txs. Inr (map (\<lambda>tx. tx\<lparr>signatures := signatures tx @ [PublicKey ''alice'']\<rparr>) txs))\<rparr>"

definition example_instruction :: ProposalInstruction where
  "example_instruction =
     \<lparr>pi_programId = PublicKey ''memo'', pi_accounts = [], pi_data = [1, 2, 3]\<rparr>"

text \<open>The hook in the module as it stands: \<open>failAmm\<close> and \<open>passAmm\<close> unbound.\<close>

definition example_hook :: hook_deps where
  "example_hook =
     \<lparr>connection = example_connection,
      program = Some example_program,
      daoKey = Some (PublicKey ''daoA''),
      daoTreasuryKey = Some (PublicKey ''treasury''),
      hook_daoTokens = Some example_tokens,
      wallet = Some example_wallet,
      Keypair_generate = \<lparr>kp_publicKey = PublicKey ''fresh'', kp_secretKey = [7]\<rparr>,
      failAmm = None,
      passAmm = None,
      Transaction_sign =
        (\<lambda>tx signer. Inr (tx\<lparr>signatures := signatures tx @ [kp_publicKey signer]\<rparr>)),
      Transaction_serialize = (\<lambda>tx. Inr (Wire [length (instructions tx)])),
      settles_first = (\<lambda>rejected. 0)\<rparr>"

text \<open>The same hook in a module that declares the two identifiers.\<close>

definition example_hook_declared :: hook_deps where
  "example_hook_declared =
     example_hook\<lparr>failAmm := Some (PublicKey ''failAmm''),
                  passAmm := Some (PublicKey ''passAmm'')\<rparr>"

definition example_ammClient :: AmmClient where
  "example_ammClient =
     \<lparr>amm_createAmm = (\<lambda>proposal base quote obs pof uri n base' quote' a change. Inr ()),
      amm_getAmm = (\<lambda>address. Inr \<lparr>amm_publicKey = address\<rparr>),
      amm_swap = (\<lambda>amm swapType inputAmount outputAmountMin. Inr ())\<rparr>"

definition example_state :: provider_state where
  "example_state =
     \<lparr>autocratProgram = Some example_program,
      daoState = Some example_daoState,
      daoTokens = Some example_tokens,
      provider_wallet = Some example_wallet,
      ammClient = example_ammClient,
      findProgramAddress = (\<lambda>seeds pid. Inr (PublicKey ''derived'', 255)),
      AMM_PROGRAM_ID = PublicKey ''ammProgram''\<rparr>"

definition example_keypair :: Keypair where
  "example_keypair = \<lparr>kp_publicKey = PublicKey ''fresh'', kp_secretKey = [7]\<rparr>"

text \<open>
  The declaring module with an RPC node that does not answer the blockhash request.
\<close>

definition example_hook_rpc_down :: hook_deps where
  "example_hook_rpc_down =
     example_hook_declared\<lparr>connection :=
       example_connection\<lparr>getLatestBlockhash := Inl (SdkError ''blockhash unavailable'')\<rparr>\<rparr>"

text \<open>An AMM client whose \<open>createAmm\<close> and \<open>swap\<close> reject.\<close>

definition example_rejecting_ammClient :: AmmClient where
  "example_rejecting_ammClient =
     \<lparr>amm_createAmm =
        (\<lambda>proposal base quote obs pof uri n base' quote' a change.
           Inl (SdkError ''simulation failed'')),
      amm_getAmm = (\<lambda>address. Inr \<lparr>amm_publicKey = address\<rparr>),
      amm_swap =
        (\<lambda>amm swapType inputAmount outputAmountMin. Inl (SdkError ''simulation failed''))\<rparr>"

text \<open>An AMM client that finds no AMM at the address.\<close>

definition example_no_amm_client :: AmmClient where
  "example_no_amm_client =
     example_ammClient\<lparr>amm_getAmm := (\<lambda>address. Inl (SdkError ''account does not exist''))\<rparr>"

definition example_state_no_amm :: provider_state where
  "example_state_no_amm = example_state\<lparr>ammClient := example_no_amm_client\<rparr>"

definition example_state_rejecting :: provider_state where
  "example_state_rejecting = example_state\<lparr>ammClient := example_rejecting_ammClient\<rparr>"

text \<open>A derivation that finds no bump seed.\<close>

definition example_state_no_address :: provider_state where
  "example_state_no_address =
     example_state\<lparr>findProgramAddress := (\<lambda>seeds pid. Inl (SdkError ''no viable nonce''))\<rparr>"

text \<open>Base and quote token on one mint.\<close>

definition example_state_same_mint :: provider_state where
  "example_state_same_mint =
     example_state\<lparr>daoTokens := Some [(''baseToken'', Some META), (''quoteToken'', Some META)]\<rparr>"

text \<open>A program whose mint account decodes \<open>supply\<close> as a big number, and no AMM.\<close>

definition example_state_bn_supply :: provider_state where
  "example_state_bn_supply =
     example_state
       \<lparr>autocratProgram :=
          Some (example_program\<lparr>account_mint_fetch := (\<lambda>mint. Inr \<lparr>mint_supply = BNValue 0\<rparr>)\<rparr>),
        ammClient := example_no_amm_client\<rparr>"

section \<open>Laws of runs\<close>

lemma andThen_await_Inr:
  "andThen (await c (Inr v)) f = (Called c Resolves # fst (f v), snd (f v))"
  by (simp add: andThen_def await_def split: prod.splits)

lemma andThen_await_Inl:
  "andThen (await c (Inl e)) f = ([Called c (Rejects e)], Inl (Rejected e))"
  by (simp add: andThen_def await_def)

lemma andThen_throw: "andThen (throw x) f = ([], Inl x)"
  by (simp add: andThen_def throw_def)

lemma andThen_pure: "andThen ([], Inr v) f = f v"
  by (simp add: andThen_def split: prod.splits)

lemma tryCatch_await_Inr: "tryCatch (await c (Inr v)) h = ([Called c Resolves], Inr v)"
  by (simp add: tryCatch_def await_def)

lemma tryCatch_await_Inl:
  "tryCatch (await c (Inl e)) h =
     (Called c (Rejects e) # fst (h (Rejected e)), snd (h (Rejected e)))"
  by (simp add: tryCatch_def await_def split: prod.splits)

lemma tryCatch_andThen_await_Inr:
  "tryCatch (andThen (await c (Inr v)) f) h =
     (Called c Resolves # fst (tryCatch (f v) h), snd (tryCatch (f v) h))"
  by (simp add: tryCatch_def andThen_def await_def split: prod.splits sum.splits)

lemma tryCatch_andThen_await_Inl:
  "tryCatch (andThen (await c (Inl e)) f) h =
     (Called c (Rejects e) # fst (h (Rejected e)), snd (h (Rejected e)))"
  by (simp add: tryCatch_def andThen_def await_def split: prod.splits)

lemmas run_simps =
  andThen_await_Inr andThen_await_Inl andThen_throw andThen_pure
  tryCatch_await_Inr tryCatch_await_Inl tryCatch_andThen_await_Inr tryCatch_andThen_await_Inl

section \<open>The guards\<close>

text \<open>
  Claim C2. A call to \<open>initializeProposal\<close>, \<open>createAmm\<close> or \<open>swap\<close> made while
  one of the values its guard tests is missing (for the hook: the wallet, its public
  key, its \<open>signAllTransactions\<close>, the base token, the quote token, the treasury key,
  the program; for the provider: the program, the DAO state, the base token, the quote
  token, the provider's wallet) resolves to \<open>undefined\<close> and causes no event at all:
  no SDK, RPC, wallet or AMM-client call, and no exception. The hook does not test
  \<open>daoKey\<close>; when it and \<open>daoTreasuryKey\<close> are the provider's, an unresolved
  \<open>daoKey\<close> comes with an unresolved \<open>daoTreasuryKey\<close>, which the guard tests.
\<close>

theorem guards_return_undefined_without_effects:
  "((wallet h = None
      \<or> (\<exists>w. wallet h = Some w \<and> (w_publicKey w = None \<or> w_signAllTransactions w = None))
      \<or> tokenOf (hook_daoTokens h) ''baseToken'' = None
      \<or> tokenOf (hook_daoTokens h) ''quoteToken'' = None
      \<or> daoTreasuryKey h = None
      \<or> program h = None)
     \<longrightarrow> initializeProposal h url ins = ([], Inr ()))
   \<and> ((autocratProgram s = None
      \<or> daoState s = None
      \<or> tokenOf (daoTokens s) ''baseToken'' = None
      \<or> tokenOf (daoTokens s) ''quoteToken'' = None
      \<or> provider_wallet s = None)
     \<longrightarrow> createAmm s pof uri proposalNumber symbol a = ([], Inr ())
         \<and> swap s swapType inputAmount outputAmountMin = ([], Inr ()))
   \<and> (daoKey h = ctx_daoKey (activeDao selected)
       \<and> daoTreasuryKey h = ctx_daoTreasuryKey (activeDao selected)
       \<and> daoKey h = None
     \<longrightarrow> initializeProposal h url ins = ([], Inr ()))"
proof -
  have hook: "initializeProposal h url ins = ([], Inr ())"
    if g: "wallet h = None
      \<or> (\<exists>w. wallet h = Some w \<and> (w_publicKey w = None \<or> w_signAllTransactions w = None))
      \<or> tokenOf (hook_daoTokens h) ''baseToken'' = None
      \<or> tokenOf (hook_daoTokens h) ''quoteToken'' = None
      \<or> daoTreasuryKey h = None
      \<or> program h = None"
    using g by (auto simp: initializeProposal_def returnUndefined_def split: option.splits)
  have prov: "createAmm s pof uri proposalNumber symbol a = ([], Inr ())
         \<and> swap s swapType inputAmount outputAmountMin = ([], Inr ())"
    if g: "autocratProgram s = None
      \<or> daoState s = None
      \<or> tokenOf (daoTokens s) ''baseToken'' = None
      \<or> tokenOf (daoTokens s) ''quoteToken'' = None
      \<or> provider_wallet s = None"
    using g by (auto simp: createAmm_def swap_def returnUndefined_def split: option.splits)
  have dao: "initializeProposal h url ins = ([], Inr ())"
    if "daoKey h = ctx_daoKey (activeDao selected)"
       "daoTreasuryKey h = ctx_daoTreasuryKey (activeDao selected)"
       "daoKey h = None"
  proof -
    from that have "daoTreasuryKey h = None" by (simp add: activeDao_def)
    then show ?thesis by (intro hook) simp
  qed
  show ?thesis using hook prov dao by blast
qed

theorem guards_return_undefined_without_effects_witness:
  "initializeProposal (example_hook\<lparr>daoKey := None, daoTreasuryKey := None\<rparr>)
     ''https://example.org/p'' example_instruction = ([], Inr ())
   \<and> createAmm (example_state\<lparr>provider_wallet := None\<rparr>)
       ''pof'' ''uri'' (Finite 1) ''META'' (Finite 2) = ([], Inr ())
   \<and> swap (example_state\<lparr>provider_wallet := None\<rparr>) Buy (Finite 10) (Finite 9) = ([], Inr ())"
  using guards_return_undefined_without_effects
    [of "example_hook\<lparr>daoKey := None, daoTreasuryKey := None\<rparr>"
        "''https://example.org/p''" example_instruction
        "example_state\<lparr>provider_wallet := None\<rparr>"
        "''pof''" "''uri''" "Finite 1" "''META''" "Finite 2" Buy "Finite 10" "Finite 9" None]
  by (simp add: activeDao_def)

section \<open>The active DAO\<close>

lemma find_first_index:
  "i < length xs \<Longrightarrow> P (xs ! i) \<Longrightarrow> (\<forall>j<i. \<not> P (xs ! j)) \<Longrightarrow> find P xs = Some (xs ! i)"
proof (induction xs arbitrary: i)
  case Nil
  then show ?case by simp
next
  case (Cons x xs)
  show ?case
  proof (cases i)
    case 0
    with Cons.prems show ?thesis by simp
  next
    case (Suc k)
    from Cons.prems have "\<not> P ((x # xs) ! 0)" using Suc by blast
    then have "\<not> P x" by simp
    moreover have "\<forall>j<k. \<not> P (xs ! j)"
    proof (intro allI impI)
      fix j assume "j < k"
      then have "Suc j < i" using Suc by simp
      with Cons.prems have "\<not> P ((x # xs) ! Suc j)" by blast
      then show "\<not> P (xs ! j)" by simp
    qed
    moreover have "k < length xs" "P (xs ! k)" using Cons.prems Suc by auto
    ultimately show ?thesis using Cons.IH [of k] Suc by simp
  qed
qed

lemma find_none: "(\<forall>x\<in>set xs. \<not> P x) \<Longrightarrow> find P xs = None"
  by (simp add: find_None_iff)

text \<open>
  Claim C5. With \<open>DAOS[0]\<close> being \<open>d0\<close>: before any list is fetched the selected DAO
  and the three context values are undefined; for a fetched list holding an element
  whose public key is that of \<open>d0\<close>, the selected DAO is the first such element; for
  a non-empty fetched list holding none, it is the list's first element; for an empty
  list it is undefined. \<open>daoKey\<close>, \<open>daoTreasuryKey\<close> and \<open>daoState\<close> are the
  selected DAO's \<open>publicKey\<close>, \<open>account.treasury\<close> and \<open>account\<close>.
\<close>

theorem active_dao_resolution:
  "selectedDao (d0 # rest) None = Inr None
   \<and> activeDao None = \<lparr>ctx_daoKey = None, ctx_daoTreasuryKey = None, ctx_daoState = None\<rparr>
   \<and> (i < length daos \<and> dao_publicKey (daos ! i) = listing_publicKey d0
        \<and> (\<forall>j<i. dao_publicKey (daos ! j) \<noteq> listing_publicKey d0)
      \<longrightarrow> selectedDao (d0 # rest) (Some daos) = Inr (Some (daos ! i)))
   \<and> ((\<forall>x\<in>set others. dao_publicKey x \<noteq> listing_publicKey d0) \<and> others \<noteq> []
      \<longrightarrow> selectedDao (d0 # rest) (Some others) = Inr (Some (others ! 0)))
   \<and> selectedDao (d0 # rest) (Some []) = Inr None
   \<and> activeDao (Some d) =
       \<lparr>ctx_daoKey = Some (dao_publicKey d),
        ctx_daoTreasuryKey = Some (treasury (dao_account d)),
        ctx_daoState = Some (dao_account d)\<rparr>"
proof -
  let ?P = "\<lambda>dao. toBase58 (dao_publicKey dao) = toBase58 (listing_publicKey d0)"
  have same: "?P = (\<lambda>dao. dao_publicKey dao = listing_publicKey d0)"
    by (auto simp: PublicKey.expand)
  have hit: "selectedDao (d0 # rest) (Some daos) = Inr (Some (daos ! i))"
    if h: "i < length daos" "dao_publicKey (daos ! i) = listing_publicKey d0"
       "\<forall>j<i. dao_publicKey (daos ! j) \<noteq> listing_publicKey d0"
  proof -
    have "find ?P daos = Some (daos ! i)"
      unfolding same using h by (intro find_first_index) auto
    moreover obtain x xs where "daos = x # xs" using h(1) by (cases daos) auto
    ultimately show ?thesis by (simp add: selectedDao_def)
  qed
  have miss: "selectedDao (d0 # rest) (Some others) = Inr (Some (others ! 0))"
    if h: "\<forall>x\<in>set others. dao_publicKey x \<noteq> listing_publicKey d0" "others \<noteq> []"
  proof -
    have "find ?P others = None"
      unfolding same using h(1) by (intro find_none) auto
    moreover obtain x xs where "others = x # xs" using h(2) by (cases others) auto
    ultimately show ?thesis by (simp add: selectedDao_def)
  qed
  show ?thesis using hit miss by (simp add: selectedDao_def activeDao_def)
qed

theorem active_dao_resolution_witness:
  "selectedDao [\<lparr>listing_publicKey = PublicKey ''daoB''\<rparr>] (Some example_daos)
     = Inr (Some (example_daos ! 1))
   \<and> selectedDao [\<lparr>listing_publicKey = PublicKey ''daoB''\<rparr>] (Some [example_daos ! 0])
     = Inr (Some (example_daos ! 0))
   \<and> ctx_daoTreasuryKey (activeDao (Some (example_daos ! 1))) = Some (PublicKey ''treasuryB'')"
  using active_dao_resolution
    [of "\<lparr>listing_publicKey = PublicKey ''daoB''\<rparr>" "[]" 1 example_daos
        "[example_daos ! 0]" "example_daos ! 1"]
  by (simp add: example_daos_def example_daoState_def less_Suc_eq)

section \<open>setProgramVersion\<close>








section \<open>The proposal list\<close>

lemma set_insert_by: "set (insert_by cmp x ys) = insert x (set ys)"
  by (induction ys) auto

lemma mset_insert_by: "mset (insert_by cmp x ys) = add_mset x (mset ys)"
  by (induction ys) auto

lemma mset_insertions:
  "mset (foldl (\<lambda>sorted pivot. insert_by cmp pivot sorted) acc xs) = mset acc + mset xs"
  by (induction xs arbitrary: acc) (simp_all add: mset_insert_by)

lemma mset_Array_sort: "mset (Array_sort cmp xs) = mset xs"
  by (simp add: Array_sort_def mset_insertions)

lemma sorted_insert_by:
  "sorted_wrt (\<lambda>a b. number (rec_account b) \<le> number (rec_account a)) ys \<Longrightarrow>
   sorted_wrt (\<lambda>a b. number (rec_account b) \<le> number (rec_account a))
     (insert_by byNumberDescending x ys)"
  by (induction ys) (auto simp: set_insert_by byNumberDescending_def split: if_splits)

lemma sorted_insertions:
  "sorted_wrt (\<lambda>a b. number (rec_account b) \<le> number (rec_account a)) acc \<Longrightarrow>
   sorted_wrt (\<lambda>a b. number (rec_account b) \<le> number (rec_account a))
     (foldl (\<lambda>sorted pivot. insert_by byNumberDescending pivot sorted) acc xs)"
  by (induction xs arbitrary: acc) (simp_all add: sorted_insert_by)

lemma sorted_Array_sort:
  "sorted_wrt (\<lambda>a b. number (rec_account b) \<le> number (rec_account a))
     (Array_sort byNumberDescending xs)"
  by (simp add: Array_sort_def sorted_insertions)

lemma digits_examples: "digits 3 = ''3''" "digits 12 = ''12''" "digits 1500 = ''1500''"
  by code_simp+

text \<open>
  Claim C9. For a fetched list \<open>ps\<close>, the exposed \<open>proposals\<close> are the records of
  \<open>ps\<close> rearranged (\<open>qs\<close>, the same records with the same multiplicities) so that
  \<open>account.number\<close> never increases along the array, entry \<open>i\<close> keeping the public key
  and account of record \<open>i\<close>; an entry whose record carries no \<open>title\<close> has the title
  \<open>Proposal\<close>, a space and the decimal number, and one whose record carries no
  \<open>description\<close> has the empty description.
\<close>

theorem proposals_sorted_descending_with_default_titles:
  "\<exists>qs. mset qs = mset ps
     \<and> sorted_wrt (\<lambda>a b. number (rec_account b) \<le> number (rec_account a)) qs
     \<and> sorted_wrt (\<lambda>a b. number (account b) \<le> number (account a)) (proposals (Some ps))
     \<and> length (proposals (Some ps)) = length ps
     \<and> (\<forall>i<length ps.
          publicKey (proposals (Some ps) ! i) = rec_publicKey (qs ! i)
          \<and> account (proposals (Some ps) ! i) = rec_account (qs ! i)
          \<and> (rec_title (qs ! i) = None \<longrightarrow>
               title (proposals (Some ps) ! i)
                 = ''Proposal '' @ digits (number (rec_account (qs ! i))))
          \<and> (rec_description (qs ! i) = None \<longrightarrow>
               description (proposals (Some ps) ! i) = []))"
proof -
  let ?qs = "Array_sort byNumberDescending ps"
  have len: "length ?qs = length ps"
    using mset_Array_sort [of byNumberDescending ps] by (metis size_mset)
  have "sorted_wrt (\<lambda>a b. number (account b) \<le> number (account a)) (map withDefaults ?qs)"
    using sorted_Array_sort [of ps] by (simp add: sorted_wrt_map withDefaults_def)
  then show ?thesis
    using len sorted_Array_sort [of ps] mset_Array_sort [of byNumberDescending ps]
    by (intro exI [of _ ?qs]) (simp add: proposals_def withDefaults_def)
qed

theorem proposals_sorted_descending_with_default_titles_witness:
  "map title (proposals (Some example_records)) = [''Proposal 12'', ''Proposal 3'']
   \<and> map description (proposals (Some example_records)) = [[], []]
   \<and> map publicKey (proposals (Some example_records)) = [PublicKey ''p12'', PublicKey ''p3'']"
  using proposals_sorted_descending_with_default_titles [of example_records]
  by (simp add: proposals_def example_records_def Array_sort_def byNumberDescending_def
        withDefaults_def digits_examples)

section \<open>Token resolution\<close>

lemma matchingTokens_none:
  "\<forall>(k, v)\<in>set d. \<forall>t. v = Some t \<longrightarrow> tok_publicKey t \<noteq> mint \<Longrightarrow>
   matchingTokens mint d = Inr [] \<or> (\<exists>msg. matchingTokens mint d = Inl (TypeError msg))"
  by (induction mint d rule: matchingTokens.induct) (auto simp: PublicKey.expand)

lemma matchingTokens_defined_none:
  "\<forall>(k, v)\<in>set d. \<forall>t. v = Some t \<longrightarrow> tok_publicKey t \<noteq> mint \<Longrightarrow>
   \<forall>(k, v)\<in>set d. v \<noteq> None \<Longrightarrow>
   matchingTokens mint d = Inr []"
  by (induction mint d rule: matchingTokens.induct) (auto simp: PublicKey.expand)

text \<open>
  Claim C10. When the DAO state is resolved and no token of the default dictionary of
  the current network has the public key of its \<open>tokenMint\<close>, the token-resolution
  effect ends with a TypeError and the stored \<open>daoTokens\<close> is what it was. When
  every entry of the dictionary holds a token, the error is the read of element 1 of
  the undefined first element of the empty filter result.
\<close>

theorem resolveTokens_throws_on_unlisted_mint:
  "\<forall>(k, v)\<in>set (defaultTokens c network). \<forall>t. v = Some t \<longrightarrow> tok_publicKey t \<noteq> tokenMint st \<Longrightarrow>
   (\<exists>msg. resolveTokens c network lbl (Some st) stored = (Inl (TypeError msg), stored))
   \<and> ((\<forall>(k, v)\<in>set (defaultTokens c network). v \<noteq> None) \<longrightarrow>
        resolveTokens c network lbl (Some st) stored =
          (Inl (TypeError ''Cannot read properties of undefined (reading 1)''), stored))"
  using matchingTokens_none [of "defaultTokens c network" "tokenMint st"]
    matchingTokens_defined_none [of "defaultTokens c network" "tokenMint st"]
  by (auto simp: resolveTokens_def)

theorem resolveTokens_throws_on_unlisted_mint_witness:
  "resolveTokens example_constants Mainnet ''V0.3''
     (Some (example_daoState\<lparr>tokenMint := PublicKey ''otherMint''\<rparr>)) (Some example_tokens)
   = (Inl (TypeError ''Cannot read properties of undefined (reading 1)''), Some example_tokens)"
proof -
  have unlisted:
    "\<forall>(k, v)\<in>set (defaultTokens example_constants Mainnet).
       \<forall>t. v = Some t \<longrightarrow>
         tok_publicKey t \<noteq> tokenMint (example_daoState\<lparr>tokenMint := PublicKey ''otherMint''\<rparr>)"
    by (simp add: defaultTokens_def example_constants_def spread_def META_def USDC_def WSOL_def)
  have defined: "\<forall>(k, v)\<in>set (defaultTokens example_constants Mainnet). v \<noteq> None"
    by (simp add: defaultTokens_def example_constants_def spread_def)
  show ?thesis
    using resolveTokens_throws_on_unlisted_mint
      [OF unlisted, of "''V0.3''" "Some example_tokens"] defined
    by blast
qed

section \<open>swap\<close>

lemma swap_ready:
  assumes "autocratProgram s = Some prog" "daoState s = Some st"
    "tokenOf (daoTokens s) ''baseToken'' = Some baseToken"
    "tokenOf (daoTokens s) ''quoteToken'' = Some quoteToken"
    "provider_wallet s = Some w"
  shows "swap s swapType inputAmount outputAmountMin =
     andThen
       (await (FindProgramAddress
                 [Buffer_from ''amm__'', toBuffer (tok_publicKey baseToken),
                  toBuffer (tok_publicKey quoteToken)] (AMM_PROGRAM_ID s))
          (findProgramAddress s
                 [Buffer_from ''amm__'', toBuffer (tok_publicKey baseToken),
                  toBuffer (tok_publicKey quoteToken)] (AMM_PROGRAM_ID s)))
       (\<lambda>(ammPublicKey, bump).
     andThen (await (AmmClient_getAmm ammPublicKey) (amm_getAmm (ammClient s) ammPublicKey))
       (\<lambda>amm.
     tryCatch
       (await (AmmClient_swap (amm_publicKey amm) swapType inputAmount outputAmountMin)
          (amm_swap (ammClient s) (amm_publicKey amm) swapType inputAmount outputAmountMin))
       (\<lambda>err. ([ConsoleError ''Error swapping tokens:'' err], Inl err))))"
  using assms by (simp add: swap_def)

text \<open>
  Claim C6, amended. When the guard of \<open>swap\<close> passes, its first call derives the
  program address of the seeds \<open>amm__\<close>, base token public key, quote token public
  key under \<open>AMM_PROGRAM_ID\<close>; when that resolves with an address, the next call
  fetches the AMM at that address; when that resolves with an AMM, the next and last
  call is \<open>ammClient.swap\<close> with the fetched AMM's public key and the three
  arguments of \<open>swap\<close> unchanged, and nothing but logging follows it; when that call
  resolves too, these three calls are the whole run and \<open>swap\<close> resolves. When the
  derivation or the fetch rejects, \<open>swap\<close> rejects with that value and makes no
  further call.
\<close>

theorem swap_derives_fetches_delegates:
  assumes "autocratProgram s = Some prog" "daoState s = Some st"
    "tokenOf (daoTokens s) ''baseToken'' = Some baseToken"
    "tokenOf (daoTokens s) ''quoteToken'' = Some quoteToken"
    "provider_wallet s = Some w"
  shows
   "(\<exists>outcome rest. fst (swap s swapType inputAmount outputAmountMin) =
       Called (FindProgramAddress
                 [Buffer_from ''amm__'', toBuffer (tok_publicKey baseToken),
                  toBuffer (tok_publicKey quoteToken)] (AMM_PROGRAM_ID s)) outcome # rest)
    \<and> (findProgramAddress s
          [Buffer_from ''amm__'', toBuffer (tok_publicKey baseToken),
           toBuffer (tok_publicKey quoteToken)] (AMM_PROGRAM_ID s) = Inr (ammPublicKey, bump)
        \<longrightarrow> (\<exists>outcome rest. fst (swap s swapType inputAmount outputAmountMin) =
              Called (FindProgramAddress
                 [Buffer_from ''amm__'', toBuffer (tok_publicKey baseToken),
                  toBuffer (tok_publicKey quoteToken)] (AMM_PROGRAM_ID s)) Resolves
              # Called (AmmClient_getAmm ammPublicKey) outcome # rest))
    \<and> (findProgramAddress s
          [Buffer_from ''amm__'', toBuffer (tok_publicKey baseToken),
           toBuffer (tok_publicKey quoteToken)] (AMM_PROGRAM_ID s) = Inr (ammPublicKey, bump)
        \<and> amm_getAmm (ammClient s) ammPublicKey = Inr amm
        \<longrightarrow> (\<exists>outcome logged. fst (swap s swapType inputAmount outputAmountMin) =
              [Called (FindProgramAddress
                 [Buffer_from ''amm__'', toBuffer (tok_publicKey baseToken),
                  toBuffer (tok_publicKey quoteToken)] (AMM_PROGRAM_ID s)) Resolves,
               Called (AmmClient_getAmm ammPublicKey) Resolves,
               Called (AmmClient_swap (amm_publicKey amm) swapType inputAmount outputAmountMin)
                 outcome] @ logged
              \<and> (\<forall>ev\<in>set logged. \<exists>m x. ev = ConsoleError m x)))
    \<and> (findProgramAddress s
          [Buffer_from ''amm__'', toBuffer (tok_publicKey baseToken),
           toBuffer (tok_publicKey quoteToken)] (AMM_PROGRAM_ID s) = Inr (ammPublicKey, bump)
        \<and> amm_getAmm (ammClient s) ammPublicKey = Inr amm
        \<and> amm_swap (ammClient s) (amm_publicKey amm) swapType inputAmount outputAmountMin = Inr ()
        \<longrightarrow> swap s swapType inputAmount outputAmountMin =
              ([Called (FindProgramAddress
                 [Buffer_from ''amm__'', toBuffer (tok_publicKey baseToken),
                  toBuffer (tok_publicKey quoteToken)] (AMM_PROGRAM_ID s)) Resolves,
               Called (AmmClient_getAmm ammPublicKey) Resolves,
               Called (AmmClient_swap (amm_publicKey amm) swapType inputAmount outputAmountMin)
                 Resolves], Inr ()))
    \<and> (findProgramAddress s
          [Buffer_from ''amm__'', toBuffer (tok_publicKey baseToken),
           toBuffer (tok_publicKey quoteToken)] (AMM_PROGRAM_ID s) = Inl e
        \<longrightarrow> swap s swapType inputAmount outputAmountMin =
              ([Called (FindProgramAddress
                 [Buffer_from ''amm__'', toBuffer (tok_publicKey baseToken),
                  toBuffer (tok_publicKey quoteToken)] (AMM_PROGRAM_ID s)) (Rejects e)],
               Inl (Rejected e)))
    \<and> (findProgramAddress s
          [Buffer_from ''amm__'', toBuffer (tok_publicKey baseToken),
           toBuffer (tok_publicKey quoteToken)] (AMM_PROGRAM_ID s) = Inr (ammPublicKey, bump)
        \<and> amm_getAmm (ammClient s) ammPublicKey = Inl e
        \<longrightarrow> swap s swapType inputAmount outputAmountMin =
              ([Called (FindProgramAddress
                 [Buffer_from ''amm__'', toBuffer (tok_publicKey baseToken),
                  toBuffer (tok_publicKey quoteToken)] (AMM_PROGRAM_ID s)) Resolves,
               Called (AmmClient_getAmm ammPublicKey) (Rejects e)],
               Inl (Rejected e)))"
proof -
  let ?seeds = "[Buffer_from ''amm__'', toBuffer (tok_publicKey baseToken),
                  toBuffer (tok_publicKey quoteToken)]"
  let ?pda = "findProgramAddress s ?seeds (AMM_PROGRAM_ID s)"
  note sw = swap_ready [OF assms, of swapType inputAmount outputAmountMin]
  have first: "\<exists>outcome rest. fst (swap s swapType inputAmount outputAmountMin) =
       Called (FindProgramAddress ?seeds (AMM_PROGRAM_ID s)) outcome # rest"
    by (cases ?pda) (simp_all add: sw run_simps)
  have second: "\<exists>outcome rest. fst (swap s swapType inputAmount outputAmountMin) =
       Called (FindProgramAddress ?seeds (AMM_PROGRAM_ID s)) Resolves
         # Called (AmmClient_getAmm ammPublicKey) outcome # rest"
    if "?pda = Inr (ammPublicKey, bump)"
    using that by (cases "amm_getAmm (ammClient s) ammPublicKey") (simp_all add: sw run_simps)
  have third: "\<exists>outcome logged. fst (swap s swapType inputAmount outputAmountMin) =
              [Called (FindProgramAddress ?seeds (AMM_PROGRAM_ID s)) Resolves,
               Called (AmmClient_getAmm ammPublicKey) Resolves,
               Called (AmmClient_swap (amm_publicKey amm) swapType inputAmount outputAmountMin)
                 outcome] @ logged
              \<and> (\<forall>ev\<in>set logged. \<exists>m x. ev = ConsoleError m x)"
    if "?pda = Inr (ammPublicKey, bump)" "amm_getAmm (ammClient s) ammPublicKey = Inr amm"
    using that
    by (cases "amm_swap (ammClient s) (amm_publicKey amm) swapType inputAmount outputAmountMin")
       (simp_all add: sw run_simps)
  have fourth: "swap s swapType inputAmount outputAmountMin =
              ([Called (FindProgramAddress ?seeds (AMM_PROGRAM_ID s)) Resolves,
               Called (AmmClient_getAmm ammPublicKey) Resolves,
               Called (AmmClient_swap (amm_publicKey amm) swapType inputAmount outputAmountMin)
                 Resolves], Inr ())"
    if "?pda = Inr (ammPublicKey, bump)" "amm_getAmm (ammClient s) ammPublicKey = Inr amm"
       "amm_swap (ammClient s) (amm_publicKey amm) swapType inputAmount outputAmountMin = Inr ()"
    using that by (simp add: sw run_simps)
  have fifth: "swap s swapType inputAmount outputAmountMin =
              ([Called (FindProgramAddress ?seeds (AMM_PROGRAM_ID s)) (Rejects e)],
               Inl (Rejected e))"
    if "?pda = Inl e"
    using that by (simp add: sw run_simps)
  have sixth: "swap s swapType inputAmount outputAmountMin =
              ([Called (FindProgramAddress ?seeds (AMM_PROGRAM_ID s)) Resolves,
               Called (AmmClient_getAmm ammPublicKey) (Rejects e)],
               Inl (Rejected e))"
    if "?pda = Inr (ammPublicKey, bump)" "amm_getAmm (ammClient s) ammPublicKey = Inl e"
    using that by (simp add: sw run_simps)
  show ?thesis using first second third fourth fifth sixth by blast
qed

theorem swap_derives_fetches_delegates_witness:
  "swap example_state Buy (Finite 10) (Finite 9) =
     ([Called (FindProgramAddress
                 [Buffer_from ''amm__'', toBuffer (PublicKey ''metaMint''),
                  toBuffer (PublicKey ''usdcMint'')] (PublicKey ''ammProgram'')) Resolves,
       Called (AmmClient_getAmm (PublicKey ''derived'')) Resolves,
       Called (AmmClient_swap (PublicKey ''derived'') Buy (Finite 10) (Finite 9)) Resolves],
      Inr ())
   \<and> swap example_state_no_address Buy (Finite 10) (Finite 9) =
     ([Called (FindProgramAddress
                 [Buffer_from ''amm__'', toBuffer (PublicKey ''metaMint''),
                  toBuffer (PublicKey ''usdcMint'')] (PublicKey ''ammProgram''))
         (Rejects (SdkError ''no viable nonce''))],
      Inl (Rejected (SdkError ''no viable nonce'')))"
proof -
  have ready:
    "autocratProgram example_state = Some example_program"
    "daoState example_state = Some example_daoState"
    "tokenOf (daoTokens example_state) ''baseToken'' = Some META"
    "tokenOf (daoTokens example_state) ''quoteToken'' = Some USDC"
    "provider_wallet example_state = Some example_wallet"
    by (simp_all add: example_state_def example_tokens_def tokenOf_def)
  have no_address:
    "autocratProgram example_state_no_address = Some example_program"
    "daoState example_state_no_address = Some example_daoState"
    "tokenOf (daoTokens example_state_no_address) ''baseToken'' = Some META"
    "tokenOf (daoTokens example_state_no_address) ''quoteToken'' = Some USDC"
    "provider_wallet example_state_no_address = Some example_wallet"
    using ready by (simp_all add: example_state_no_address_def)
  show ?thesis
    using swap_derives_fetches_delegates
      [OF ready, where swapType = Buy and inputAmount = "Finite 10"
         and outputAmountMin = "Finite 9" and ammPublicKey = "PublicKey ''derived''"
         and bump = 255 and amm = "\<lparr>amm_publicKey = PublicKey ''derived''\<rparr>"]
      swap_derives_fetches_delegates
      [OF no_address, where swapType = Buy and inputAmount = "Finite 10"
         and outputAmountMin = "Finite 9" and e = "SdkError ''no viable nonce''"]
    by (simp add: example_state_no_address_def example_state_def example_ammClient_def
          META_def USDC_def)
qed

text \<open>
  The claim as written has \<open>swap\<close> fetch the AMM and delegate for every call with
  resolved preconditions. Here they are resolved and no AMM exists at the derived
  address: the fetch rejects, and \<open>ammClient.swap\<close> is never called.
\<close>

theorem swap_without_amm_never_delegates:
  "autocratProgram example_state_no_amm = Some example_program
   \<and> daoState example_state_no_amm = Some example_daoState
   \<and> tokenOf (daoTokens example_state_no_amm) ''baseToken'' = Some META
   \<and> tokenOf (daoTokens example_state_no_amm) ''quoteToken'' = Some USDC
   \<and> provider_wallet example_state_no_amm = Some example_wallet
   \<and> swap example_state_no_amm Buy (Finite 10) (Finite 9) =
       ([Called (FindProgramAddress
                   [Buffer_from ''amm__'', toBuffer (PublicKey ''metaMint''),
                    toBuffer (PublicKey ''usdcMint'')] (PublicKey ''ammProgram'')) Resolves,
         Called (AmmClient_getAmm (PublicKey ''derived''))
           (Rejects (SdkError ''account does not exist''))],
        Inl (Rejected (SdkError ''account does not exist'')))"
  by (simp add: swap_def example_state_no_amm_def example_state_def tokenOf_def
        example_tokens_def example_no_amm_client_def example_ammClient_def
        andThen_def await_def META_def USDC_def)

section \<open>Case tables of the operations\<close>

lemma createAmm_ready:
  assumes "autocratProgram s = Some prog" "daoState s = Some st"
    "tokenOf (daoTokens s) ''baseToken'' = Some baseToken"
    "tokenOf (daoTokens s) ''quoteToken'' = Some quoteToken"
    "provider_wallet s = Some w"
  shows "createAmm s pof uri proposalNumber symbol a =
     (if tok_publicKey baseToken = tok_publicKey quoteToken
      then throw (Error ''Base and quote mints must be different'')
      else
        andThen (await (MintFetch (tok_publicKey baseToken))
                   (account_mint_fetch prog (tok_publicKey baseToken))) (\<lambda>baseMint.
          if mint_supply baseMint \<noteq> NumberValue (Finite 0)
          then throw (Error ''Base mint must have a supply of 0'')
          else createAmm_try s prog st baseToken quoteToken pof uri proposalNumber a))"
  using assms by (simp add: createAmm_def)

lemma createAmm_try_cases:
  "createAmm_try s prog st baseToken quoteToken pof uri proposalNumber a =
     (case findProgramAddress s
             [Buffer_from ''proposal'', Buffer_from_toString proposalNumber] (programId prog) of
        Inl e \<Rightarrow>
          ([Called (FindProgramAddress
                      [Buffer_from ''proposal'', Buffer_from_toString proposalNumber]
                      (programId prog)) (Rejects e),
            ConsoleError ''Error creating AMM:'' (Rejected e)], Inl (Rejected e))
      | Inr (proposalAddress, bump) \<Rightarrow>
          (case amm_createAmm (ammClient s) proposalAddress
                  (tok_publicKey baseToken) (tok_publicKey quoteToken)
                  (twapInitialObservation st) pof uri proposalNumber
                  (tok_publicKey baseToken) (tok_publicKey quoteToken)
                  a (twapMaxObservationChangePerUpdate st) of
             Inl e \<Rightarrow>
               ([Called (FindProgramAddress
                      [Buffer_from ''proposal'', Buffer_from_toString proposalNumber]
                      (programId prog)) Resolves,
                 Called (AmmClient_createAmm proposalAddress
                      (tok_publicKey baseToken) (tok_publicKey quoteToken)
                      (twapInitialObservation st) pof uri proposalNumber
                      (tok_publicKey baseToken) (tok_publicKey quoteToken)
                      a (twapMaxObservationChangePerUpdate st)) (Rejects e),
                 ConsoleError ''Error creating AMM:'' (Rejected e)], Inl (Rejected e))
           | Inr u \<Rightarrow>
               ([Called (FindProgramAddress
                      [Buffer_from ''proposal'', Buffer_from_toString proposalNumber]
                      (programId prog)) Resolves,
                 Called (AmmClient_createAmm proposalAddress
                      (tok_publicKey baseToken) (tok_publicKey quoteToken)
                      (twapInitialObservation st) pof uri proposalNumber
                      (tok_publicKey baseToken) (tok_publicKey quoteToken)
                      a (twapMaxObservationChangePerUpdate st)) Resolves], Inr ())))"
  by (simp add: createAmm_try_def tryCatch_def andThen_def await_def split: sum.splits prod.splits)


lemma createAmm_cases:
  assumes "autocratProgram s = Some prog" "daoState s = Some st"
    "tokenOf (daoTokens s) ''baseToken'' = Some baseToken"
    "tokenOf (daoTokens s) ''quoteToken'' = Some quoteToken"
    "provider_wallet s = Some w"
  shows "createAmm s pof uri proposalNumber symbol a =
     (if tok_publicKey baseToken = tok_publicKey quoteToken
      then ([], Inl (Error ''Base and quote mints must be different''))
      else
        (case account_mint_fetch prog (tok_publicKey baseToken) of
           Inl e \<Rightarrow> ([Called (MintFetch (tok_publicKey baseToken)) (Rejects e)], Inl (Rejected e))
         | Inr baseMint \<Rightarrow>
             if mint_supply baseMint \<noteq> NumberValue (Finite 0)
             then ([Called (MintFetch (tok_publicKey baseToken)) Resolves],
                   Inl (Error ''Base mint must have a supply of 0''))
             else (Called (MintFetch (tok_publicKey baseToken)) Resolves
                     # fst (createAmm_try s prog st baseToken quoteToken pof uri proposalNumber a),
                   snd (createAmm_try s prog st baseToken quoteToken pof uri proposalNumber a))))"
  by (simp add: createAmm_ready [OF assms] throw_def andThen_def await_def
        split: sum.splits prod.splits)

lemma swap_cases:
  assumes "autocratProgram s = Some prog" "daoState s = Some st"
    "tokenOf (daoTokens s) ''baseToken'' = Some baseToken"
    "tokenOf (daoTokens s) ''quoteToken'' = Some quoteToken"
    "provider_wallet s = Some w"
  shows "swap s swapType inputAmount outputAmountMin =
     (case findProgramAddress s
             [Buffer_from ''amm__'', toBuffer (tok_publicKey baseToken),
              toBuffer (tok_publicKey quoteToken)] (AMM_PROGRAM_ID s) of
        Inl e \<Rightarrow>
          ([Called (FindProgramAddress
                      [Buffer_from ''amm__'', toBuffer (tok_publicKey baseToken),
                       toBuffer (tok_publicKey quoteToken)] (AMM_PROGRAM_ID s)) (Rejects e)],
           Inl (Rejected e))
      | Inr (ammPublicKey, bump) \<Rightarrow>
          (case amm_getAmm (ammClient s) ammPublicKey of
             Inl e \<Rightarrow>
               ([Called (FindProgramAddress
                      [Buffer_from ''amm__'', toBuffer (tok_publicKey baseToken),
                       toBuffer (tok_publicKey quoteToken)] (AMM_PROGRAM_ID s)) Resolves,
                 Called (AmmClient_getAmm ammPublicKey) (Rejects e)], Inl (Rejected e))
           | Inr amm \<Rightarrow>
               (case amm_swap (ammClient s) (amm_publicKey amm) swapType inputAmount
                       outputAmountMin of
                  Inl e \<Rightarrow>
                    ([Called (FindProgramAddress
                        [Buffer_from ''amm__'', toBuffer (tok_publicKey baseToken),
                         toBuffer (tok_publicKey quoteToken)] (AMM_PROGRAM_ID s)) Resolves,
                      Called (AmmClient_getAmm ammPublicKey) Resolves,
                      Called (AmmClient_swap (amm_publicKey amm) swapType inputAmount
                                outputAmountMin) (Rejects e),
                      ConsoleError ''Error swapping tokens:'' (Rejected e)], Inl (Rejected e))
                | Inr u \<Rightarrow>
                    ([Called (FindProgramAddress
                        [Buffer_from ''amm__'', toBuffer (tok_publicKey baseToken),
                         toBuffer (tok_publicKey quoteToken)] (AMM_PROGRAM_ID s)) Resolves,
                      Called (AmmClient_getAmm ammPublicKey) Resolves,
                      Called (AmmClient_swap (amm_publicKey amm) swapType inputAmount
                                outputAmountMin) Resolves], Inr ()))))"
  by (simp add: swap_ready [OF assms] tryCatch_def andThen_def await_def
        split: sum.splits prod.splits)

lemma provider_not_ready:
  assumes "autocratProgram s = None \<or> daoState s = None
      \<or> tokenOf (daoTokens s) ''baseToken'' = None
      \<or> tokenOf (daoTokens s) ''quoteToken'' = None
      \<or> provider_wallet s = None"
  shows "createAmm s pof uri proposalNumber symbol a = ([], Inr ())"
    and "swap s swapType inputAmount outputAmountMin = ([], Inr ())"
  using assms by (auto simp: createAmm_def swap_def returnUndefined_def split: option.splits)

lemma provider_ready_or_not:
  obtains (not_ready) "autocratProgram s = None \<or> daoState s = None
      \<or> tokenOf (daoTokens s) ''baseToken'' = None
      \<or> tokenOf (daoTokens s) ''quoteToken'' = None
      \<or> provider_wallet s = None"
  | (ready) prog st baseToken quoteToken w where
      "autocratProgram s = Some prog" "daoState s = Some st"
      "tokenOf (daoTokens s) ''baseToken'' = Some baseToken"
      "tokenOf (daoTokens s) ''quoteToken'' = Some quoteToken"
      "provider_wallet s = Some w"
  by (cases "autocratProgram s"; cases "daoState s"; cases "tokenOf (daoTokens s) ''baseToken''";
      cases "tokenOf (daoTokens s) ''quoteToken''"; cases "provider_wallet s") auto

lemma swap_error_origin:
  "snd (swap s swapType inputAmount outputAmountMin) = Inl x \<Longrightarrow>
   \<exists>c e. x = Rejected e
     \<and> Called c (Rejects e) \<in> set (fst (swap s swapType inputAmount outputAmountMin))"
proof (cases s rule: provider_ready_or_not)
  case not_ready
  assume "snd (swap s swapType inputAmount outputAmountMin) = Inl x"
  then show ?thesis
    using provider_not_ready(2) [OF not_ready, of swapType inputAmount outputAmountMin]
    by simp
next
  case (ready prog st baseToken quoteToken w)
  assume "snd (swap s swapType inputAmount outputAmountMin) = Inl x"
  then show ?thesis
    by (auto simp: swap_cases [OF ready] split: sum.splits prod.splits)
qed

lemma createAmm_error_origin:
  "snd (createAmm s pof uri proposalNumber symbol a) = Inl x \<Longrightarrow>
   (\<exists>c e. x = Rejected e
      \<and> Called c (Rejects e) \<in> set (fst (createAmm s pof uri proposalNumber symbol a)))
   \<or> x = Error ''Base and quote mints must be different''
   \<or> x = Error ''Base mint must have a supply of 0''"
proof (cases s rule: provider_ready_or_not)
  case not_ready
  assume "snd (createAmm s pof uri proposalNumber symbol a) = Inl x"
  then show ?thesis
    using provider_not_ready(1) [OF not_ready, of pof uri proposalNumber symbol a]
    by simp
next
  case (ready prog st baseToken quoteToken w)
  assume "snd (createAmm s pof uri proposalNumber symbol a) = Inl x"
  then show ?thesis
    by (auto simp: createAmm_cases [OF ready] createAmm_try_cases
          split: sum.splits prod.splits if_splits)
qed


lemma initializeProposal_ready:
  assumes "wallet h = Some w" "w_publicKey w = Some walletKey"
    "w_signAllTransactions w = Some signAll"
    "tokenOf (hook_daoTokens h) ''baseToken'' = Some baseToken"
    "tokenOf (hook_daoTokens h) ''quoteToken'' = Some quoteToken"
    "daoTreasuryKey h = Some treasuryKey" "program h = Some prog"
  shows "initializeProposal h url ins = initializeProposal_body h prog walletKey signAll url ins"
  using assms by (simp add: initializeProposal_def)

lemma hook_not_ready:
  assumes "wallet h = None
      \<or> (\<exists>w. wallet h = Some w \<and> (w_publicKey w = None \<or> w_signAllTransactions w = None))
      \<or> tokenOf (hook_daoTokens h) ''baseToken'' = None
      \<or> tokenOf (hook_daoTokens h) ''quoteToken'' = None
      \<or> daoTreasuryKey h = None
      \<or> program h = None"
  shows "initializeProposal h url ins = ([], Inr ())"
  using assms by (auto simp: initializeProposal_def returnUndefined_def split: option.splits)

lemma hook_ready_or_not:
  obtains (not_ready) "wallet h = None
      \<or> (\<exists>w. wallet h = Some w \<and> (w_publicKey w = None \<or> w_signAllTransactions w = None))
      \<or> tokenOf (hook_daoTokens h) ''baseToken'' = None
      \<or> tokenOf (hook_daoTokens h) ''quoteToken'' = None
      \<or> daoTreasuryKey h = None
      \<or> program h = None"
  | (ready) w walletKey signAll baseToken quoteToken treasuryKey prog where
      "wallet h = Some w" "w_publicKey w = Some walletKey"
      "w_signAllTransactions w = Some signAll"
      "tokenOf (hook_daoTokens h) ''baseToken'' = Some baseToken"
      "tokenOf (hook_daoTokens h) ''quoteToken'' = Some quoteToken"
      "daoTreasuryKey h = Some treasuryKey" "program h = Some prog"
proof (cases "wallet h")
  case None
  then show ?thesis using not_ready by simp
next
  case (Some w)
  then show ?thesis
    using not_ready ready [of w]
    by (cases "w_publicKey w"; cases "w_signAllTransactions w";
        cases "tokenOf (hook_daoTokens h) ''baseToken''";
        cases "tokenOf (hook_daoTokens h) ''quoteToken''";
        cases "daoTreasuryKey h"; cases "program h") auto
qed

lemma sendTask_cases:
  "sendTask h tx =
     (case Transaction_serialize h tx of
        Inl e \<Rightarrow> ([Called (Serialize tx) (Rejects e)], Inl (Rejected e))
      | Inr raw \<Rightarrow>
          (case sendRawTransaction (connection h) raw \<lparr>skipPreflight = True\<rparr> of
             Inl e \<Rightarrow>
               ([Called (Serialize tx) Resolves,
                 Called (SendRawTransaction raw \<lparr>skipPreflight = True\<rparr>) (Rejects e)],
                Inl (Rejected e))
           | Inr sig \<Rightarrow>
               ([Called (Serialize tx) Resolves,
                 Called (SendRawTransaction raw \<lparr>skipPreflight = True\<rparr>) Resolves],
                Inr sig)))"
  by (simp add: sendTask_def andThen_def await_def split: sum.splits)

lemma sendTask_error_origin:
  "snd (sendTask h tx) = Inl x \<Longrightarrow>
   \<exists>c e. x = Rejected e \<and> Called c (Rejects e) \<in> set (fst (sendTask h tx))"
  by (auto simp: sendTask_cases split: sum.splits)

lemma confirmTask_error_origin:
  "snd (confirmTask h latest sent) = Inl x \<Longrightarrow>
   \<exists>c e. x = Rejected e \<and> Called c (Rejects e) \<in> set (fst (confirmTask h latest sent))"
  by (auto simp: confirmTask_def await_def Let_def split: sum.splits)

lemma in_rejections: "x \<in> set (rejections rs) \<longleftrightarrow> (\<exists>r\<in>set rs. snd r = Inl x)"
  by (induction rs) (auto simp: rejections_def split: sum.splits)

lemma rejections_empty: "rejections rs = [] \<longleftrightarrow> (\<forall>r\<in>set rs. \<exists>v. snd r = Inr v)"
  by (induction rs) (auto simp: rejections_def split: sum.splits)

lemma Promise_all_rejects:
  assumes "Promise_all pick rejected = Inl x"
  shows "x \<in> set rejected"
proof -
  from assms have nonempty: "rejected \<noteq> []" by (auto simp: Promise_all_def)
  from assms have "x = rejected ! (pick rejected mod length rejected)"
    by (cases rejected) (simp_all add: Promise_all_def)
  moreover have "pick rejected mod length rejected < length rejected"
    using nonempty by simp
  ultimately show ?thesis by (simp only: nth_mem)
qed

lemma Promise_all_resolves: "Promise_all pick rejected = Inr u \<longleftrightarrow> rejected = []"
  by (cases rejected) (simp_all add: Promise_all_def)

lemma sendAndConfirmAll_error_origin:
  assumes "snd (sendAndConfirmAll h latest txs) = Inl x"
  shows "\<exists>c e. x = Rejected e
     \<and> Called c (Rejects e) \<in> set (fst (sendAndConfirmAll h latest txs))"
proof -
  let ?sends = "map (sendTask h) txs"
  let ?confirms = "map (confirmTask h latest) ?sends"
  have "snd (sendAndConfirmAll h latest txs) =
      Promise_all (settles_first h) (rejections ?sends @ rejections ?confirms)"
    by (simp add: sendAndConfirmAll_def Let_def del: map_map)
  with assms have
    "Promise_all (settles_first h) (rejections ?sends @ rejections ?confirms) = Inl x"
    by simp
  then have "x \<in> set (rejections ?sends @ rejections ?confirms)"
    by (rule Promise_all_rejects)
  then have "x \<in> set (rejections ?sends) \<or> x \<in> set (rejections ?confirms)"
    by simp
  then consider (send) r where "r \<in> set ?sends" "snd r = Inl x"
    | (confirm) r where "r \<in> set ?confirms" "snd r = Inl x"
    unfolding in_rejections by blast
  then show ?thesis
  proof cases
    case send
    then obtain tx where tx: "tx \<in> set txs" "r = sendTask h tx" by auto
    with send(2) obtain c e where
      "x = Rejected e" "Called c (Rejects e) \<in> set (fst (sendTask h tx))"
      using sendTask_error_origin [of h tx x] by auto
    moreover have "set (fst (sendTask h tx)) \<subseteq> set (fst (sendAndConfirmAll h latest txs))"
      using tx(1) by (auto simp: sendAndConfirmAll_def Let_def)
    ultimately show ?thesis by blast
  next
    case confirm
    then obtain tx where tx: "tx \<in> set txs" "r = confirmTask h latest (sendTask h tx)" by auto
    with confirm(2) obtain c e where
      "x = Rejected e"
      "Called c (Rejects e) \<in> set (fst (confirmTask h latest (sendTask h tx)))"
      using confirmTask_error_origin [of h latest "sendTask h tx" x] by auto
    moreover have "set (fst (confirmTask h latest (sendTask h tx)))
        \<subseteq> set (fst (sendAndConfirmAll h latest txs))"
      using tx(1) by (auto simp: sendAndConfirmAll_def Let_def)
    ultimately show ?thesis by blast
  qed
qed


lemma initializeProposal_body_cases:
  assumes "failAmm h = Some fa" "passAmm h = Some pa"
  shows "initializeProposal_body h prog walletKey signAll url ins =
     (let proposalKeypair = Keypair_generate h;
          accts = \<lparr>acc_proposal = kp_publicKey proposalKeypair, acc_dao = daoKey h,
                    acc_failAmm = fa, acc_passAmm = pa, acc_proposer = walletKey\<rparr>
      in case account_proposal_createInstruction prog proposalKeypair 1500 of
        Inl e \<Rightarrow> ([Called (CreateInstruction proposalKeypair 1500) (Rejects e)], Inl (Rejected e))
      | Inr createIx \<Rightarrow>
     (case methods_initializeProposal_instruction prog (proposalParams url ins) accts of
        Inl e \<Rightarrow>
          ([Called (CreateInstruction proposalKeypair 1500) Resolves,
            Called (InitializeProposalInstruction (proposalParams url ins) accts) (Rejects e)],
           Inl (Rejected e))
      | Inr initIx \<Rightarrow>
     (case getLatestBlockhash (connection h) of
        Inl e \<Rightarrow>
          ([Called (CreateInstruction proposalKeypair 1500) Resolves,
            Called (InitializeProposalInstruction (proposalParams url ins) accts) Resolves,
            Called GetLatestBlockhash (Rejects e)],
           Inl (Rejected e))
      | Inr latestBlockhash \<Rightarrow>
     (let tx = \<lparr>instructions = [createIx, initIx], feePayer = Some walletKey,
                 recentBlockhash = Some (blockhash latestBlockhash), signatures = []\<rparr>
      in case Transaction_sign h tx proposalKeypair of
        Inl e \<Rightarrow>
          ([Called (CreateInstruction proposalKeypair 1500) Resolves,
            Called (InitializeProposalInstruction (proposalParams url ins) accts) Resolves,
            Called GetLatestBlockhash Resolves,
            Called (SignTransaction tx proposalKeypair) (Rejects e)],
           Inl (Rejected e))
      | Inr signed \<Rightarrow>
     (case signAll [signed] of
        Inl e \<Rightarrow>
          ([Called (CreateInstruction proposalKeypair 1500) Resolves,
            Called (InitializeProposalInstruction (proposalParams url ins) accts) Resolves,
            Called GetLatestBlockhash Resolves,
            Called (SignTransaction tx proposalKeypair) Resolves,
            Called (SignAllTransactions [signed]) (Rejects e)],
           Inl (Rejected e))
      | Inr signedTxs \<Rightarrow>
          ([Called (CreateInstruction proposalKeypair 1500) Resolves,
            Called (InitializeProposalInstruction (proposalParams url ins) accts) Resolves,
            Called GetLatestBlockhash Resolves,
            Called (SignTransaction tx proposalKeypair) Resolves,
            Called (SignAllTransactions [signed]) Resolves]
             @ fst (sendAndConfirmAll h latestBlockhash signedTxs),
           snd (sendAndConfirmAll h latestBlockhash signedTxs)))))))"
  using assms
  by (simp add: initializeProposal_body_def proposalAccounts_def andThen_def await_def Let_def
        new_Transaction_def Transaction_add_def
        split: sum.splits prod.splits)

lemma initializeProposal_body_unbound:
  assumes "failAmm h = None \<or> passAmm h = None"
  shows "initializeProposal_body h prog walletKey signAll url ins =
     (case account_proposal_createInstruction prog (Keypair_generate h) 1500 of
        Inl e \<Rightarrow> ([Called (CreateInstruction (Keypair_generate h) 1500) (Rejects e)],
                  Inl (Rejected e))
      | Inr createIx \<Rightarrow>
          ([Called (CreateInstruction (Keypair_generate h) 1500) Resolves],
           Inl (ReferenceError (if failAmm h = None then ''failAmm is not defined''
                                else ''passAmm is not defined''))))"
  using assms
  by (auto simp: initializeProposal_body_def proposalAccounts_def andThen_def await_def Let_def
        throw_def split: sum.splits prod.splits option.splits)

lemma initializeProposal_body_error_origin:
  assumes "failAmm h = Some fa" "passAmm h = Some pa"
    and "snd (initializeProposal_body h prog walletKey signAll url ins) = Inl x"
  shows "\<exists>c e. x = Rejected e
     \<and> Called c (Rejects e) \<in> set (fst (initializeProposal_body h prog walletKey signAll url ins))"
  using assms(3) sendAndConfirmAll_error_origin [of h _ _ x]
  unfolding initializeProposal_body_cases [OF assms(1,2)] Let_def
  by (auto split: sum.splits)


lemma swap_settles_at_rejection:
  "fst (swap s swapType inputAmount outputAmountMin) = pre @ Called c (Rejects e) # post \<Longrightarrow>
   snd (swap s swapType inputAmount outputAmountMin) = Inl (Rejected e)
   \<and> (\<forall>ev\<in>set post. \<exists>m. ev = ConsoleError m (Rejected e))"
proof (cases s rule: provider_ready_or_not)
  case not_ready
  assume "fst (swap s swapType inputAmount outputAmountMin) = pre @ Called c (Rejects e) # post"
  then show ?thesis
    using provider_not_ready(2) [OF not_ready, of swapType inputAmount outputAmountMin]
    by simp
next
  case (ready prog st baseToken quoteToken w)
  assume "fst (swap s swapType inputAmount outputAmountMin) = pre @ Called c (Rejects e) # post"
  then show ?thesis
    by (auto simp: swap_cases [OF ready] Cons_eq_append_conv split: sum.splits prod.splits)
qed

lemma createAmm_settles_at_rejection:
  "fst (createAmm s pof uri proposalNumber symbol a) = pre @ Called c (Rejects e) # post \<Longrightarrow>
   snd (createAmm s pof uri proposalNumber symbol a) = Inl (Rejected e)
   \<and> (\<forall>ev\<in>set post. \<exists>m. ev = ConsoleError m (Rejected e))"
proof (cases s rule: provider_ready_or_not)
  case not_ready
  assume "fst (createAmm s pof uri proposalNumber symbol a) = pre @ Called c (Rejects e) # post"
  then show ?thesis
    using provider_not_ready(1) [OF not_ready, of pof uri proposalNumber symbol a]
    by simp
next
  case (ready prog st baseToken quoteToken w)
  assume "fst (createAmm s pof uri proposalNumber symbol a) = pre @ Called c (Rejects e) # post"
  then show ?thesis
    by (auto simp: createAmm_cases [OF ready] createAmm_try_cases Cons_eq_append_conv
          split: sum.splits prod.splits if_splits)
qed

lemma sendAndConfirmAll_resolved:
  assumes "snd (sendAndConfirmAll h latest txs) = Inr u" and "tx \<in> set txs"
  shows "\<exists>raw sig. Transaction_serialize h tx = Inr raw
     \<and> sendRawTransaction (connection h) raw \<lparr>skipPreflight = True\<rparr> = Inr sig
     \<and> confirmTransaction (connection h)
          \<lparr>cs_signature = sig, cs_blockhash = blockhash latest,
           cs_lastValidBlockHeight = lastValidBlockHeight latest\<rparr> Confirmed = Inr ()"
proof -
  let ?sends = "map (sendTask h) txs"
  let ?confirms = "map (confirmTask h latest) ?sends"
  have "snd (sendAndConfirmAll h latest txs) =
      Promise_all (settles_first h) (rejections ?sends @ rejections ?confirms)"
    by (simp add: sendAndConfirmAll_def Let_def del: map_map)
  with assms(1) have
    "Promise_all (settles_first h) (rejections ?sends @ rejections ?confirms) = Inr u"
    by simp
  then have "rejections ?sends @ rejections ?confirms = []"
    by (simp only: Promise_all_resolves)
  then have none: "rejections ?sends = []" "rejections ?confirms = []"
    by simp_all
  have "sendTask h tx \<in> set ?sends" using assms(2) by simp
  then obtain sig where sent: "snd (sendTask h tx) = Inr sig"
    using none(1) unfolding rejections_empty by blast
  have "confirmTask h latest (sendTask h tx) \<in> set ?confirms" using assms(2) by simp
  then obtain v where confirmed: "snd (confirmTask h latest (sendTask h tx)) = Inr v"
    using none(2) unfolding rejections_empty by blast
  from sent obtain raw where raw: "Transaction_serialize h tx = Inr raw"
    "sendRawTransaction (connection h) raw \<lparr>skipPreflight = True\<rparr> = Inr sig"
    by (auto simp: sendTask_cases split: sum.splits)
  from confirmed sent have "confirmTransaction (connection h)
          \<lparr>cs_signature = sig, cs_blockhash = blockhash latest,
           cs_lastValidBlockHeight = lastValidBlockHeight latest\<rparr> Confirmed = Inr ()"
    by (auto simp: confirmTask_def await_def Let_def split: sum.splits)
  with raw show ?thesis by blast
qed

lemma sendAndConfirmAll_all_resolve:
  assumes "\<forall>tx\<in>set txs. Transaction_serialize h tx = Inr (raw_of tx)
     \<and> sendRawTransaction (connection h) (raw_of tx) \<lparr>skipPreflight = True\<rparr> = Inr (sig_of tx)
     \<and> confirmTransaction (connection h)
          \<lparr>cs_signature = sig_of tx, cs_blockhash = blockhash latest,
           cs_lastValidBlockHeight = lastValidBlockHeight latest\<rparr> Confirmed = Inr ()"
  shows "sendAndConfirmAll h latest txs =
     (concat (map (\<lambda>tx. [Called (Serialize tx) Resolves,
                          Called (SendRawTransaction (raw_of tx) \<lparr>skipPreflight = True\<rparr>) Resolves])
                txs)
      @ map (\<lambda>tx. Called (ConfirmTransaction
                             \<lparr>cs_signature = sig_of tx, cs_blockhash = blockhash latest,
                              cs_lastValidBlockHeight = lastValidBlockHeight latest\<rparr> Confirmed)
                     Resolves) txs,
      Inr ())"
proof -
  have sent: "sendTask h tx =
      ([Called (Serialize tx) Resolves,
        Called (SendRawTransaction (raw_of tx) \<lparr>skipPreflight = True\<rparr>) Resolves],
       Inr (sig_of tx))" if "tx \<in> set txs" for tx
    using assms that by (simp add: sendTask_cases)
  have confirmed: "confirmTask h latest (sendTask h tx) =
      ([Called (ConfirmTransaction
                  \<lparr>cs_signature = sig_of tx, cs_blockhash = blockhash latest,
                   cs_lastValidBlockHeight = lastValidBlockHeight latest\<rparr> Confirmed) Resolves],
       Inr ())" if "tx \<in> set txs" for tx
    using assms that by (simp add: sent confirmTask_def await_def Let_def)
  have t1: "concat (map fst (map (sendTask h) txs)) =
      concat (map (\<lambda>tx. [Called (Serialize tx) Resolves,
                          Called (SendRawTransaction (raw_of tx) \<lparr>skipPreflight = True\<rparr>) Resolves])
                txs)"
    by (simp add: sent cong: map_cong)
  have "concat (map fst (map (confirmTask h latest) (map (sendTask h) txs))) =
      concat (map (\<lambda>tx. [Called (ConfirmTransaction
                             \<lparr>cs_signature = sig_of tx, cs_blockhash = blockhash latest,
                              cs_lastValidBlockHeight = lastValidBlockHeight latest\<rparr> Confirmed)
                     Resolves]) txs)"
    by (simp add: confirmed cong: map_cong)
  then have t2: "concat (map fst (map (confirmTask h latest) (map (sendTask h) txs))) =
      map (\<lambda>tx. Called (ConfirmTransaction
                             \<lparr>cs_signature = sig_of tx, cs_blockhash = blockhash latest,
                              cs_lastValidBlockHeight = lastValidBlockHeight latest\<rparr> Confirmed)
                     Resolves) txs"
    by (simp only: concat_map_singleton)
  have r1: "rejections (map (sendTask h) txs) = []"
    unfolding rejections_empty using sent by auto
  have r2: "rejections (map (confirmTask h latest) (map (sendTask h) txs)) = []"
    unfolding rejections_empty using confirmed by auto
  have "sendAndConfirmAll h latest txs =
      (concat (map fst (map (sendTask h) txs))
         @ concat (map fst (map (confirmTask h latest) (map (sendTask h) txs))),
       Promise_all (settles_first h)
         (rejections (map (sendTask h) txs)
            @ rejections (map (confirmTask h latest) (map (sendTask h) txs))))"
    by (simp add: sendAndConfirmAll_def Let_def del: map_map)
  then show ?thesis
    by (simp only: r1 r2 t1 t2 append_Nil Promise_all_def list.case)
qed

section \<open>initializeProposal in a module that declares failAmm and passAmm\<close>

text \<open>
  With the two identifiers declared and every awaited call resolving, the wallet
  returning the one transaction signed, the run is eight calls: the two instructions,
  the blockhash, the signature of the generated keypair, the wallet's signature, and
  serialization, submission and confirmation of the signed transaction.
\<close>

lemma declared_run_submits_one_transaction:
  assumes ready: "wallet h = Some w" "w_publicKey w = Some walletKey"
    "w_signAllTransactions w = Some signAll"
    "tokenOf (hook_daoTokens h) ''baseToken'' = Some baseToken"
    "tokenOf (hook_daoTokens h) ''quoteToken'' = Some quoteToken"
    "daoTreasuryKey h = Some treasuryKey" "program h = Some prog"
    and bound: "failAmm h = Some fa" "passAmm h = Some pa"
    and built: "accts = \<lparr>acc_proposal = kp_publicKey (Keypair_generate h), acc_dao = daoKey h,
                    acc_failAmm = fa, acc_passAmm = pa, acc_proposer = walletKey\<rparr>"
      "params = \<lparr>descriptionUrl = url, instruction = ins,
                    passLpTokensToLock = 0, failLpTokensToLock = 0, nonce = 0\<rparr>"
      "account_proposal_createInstruction prog (Keypair_generate h) 1500 = Inr createIx"
      "methods_initializeProposal_instruction prog params accts = Inr initIx"
      "getLatestBlockhash (connection h) = Inr latest"
      "tx = \<lparr>instructions = [createIx, initIx], feePayer = Some walletKey,
                recentBlockhash = Some (blockhash latest), signatures = []\<rparr>"
      "Transaction_sign h tx (Keypair_generate h) = Inr signed"
      "signAll [signed] = Inr [signedTx]"
    and sent: "Transaction_serialize h signedTx = Inr raw"
      "sendRawTransaction (connection h) raw \<lparr>skipPreflight = True\<rparr> = Inr sig"
      "confirmTransaction (connection h)
           \<lparr>cs_signature = sig, cs_blockhash = blockhash latest,
            cs_lastValidBlockHeight = lastValidBlockHeight latest\<rparr> Confirmed = Inr ()"
  shows "initializeProposal h url ins =
     ([Called (CreateInstruction (Keypair_generate h) 1500) Resolves,
       Called (InitializeProposalInstruction params accts) Resolves,
       Called GetLatestBlockhash Resolves,
       Called (SignTransaction tx (Keypair_generate h)) Resolves,
       Called (SignAllTransactions [signed]) Resolves,
       Called (Serialize signedTx) Resolves,
       Called (SendRawTransaction raw \<lparr>skipPreflight = True\<rparr>) Resolves,
       Called (ConfirmTransaction
                 \<lparr>cs_signature = sig, cs_blockhash = blockhash latest,
                  cs_lastValidBlockHeight = lastValidBlockHeight latest\<rparr> Confirmed) Resolves],
      Inr ())"
proof -
  have all: "sendAndConfirmAll h latest [signedTx] =
     ([Called (Serialize signedTx) Resolves,
       Called (SendRawTransaction raw \<lparr>skipPreflight = True\<rparr>) Resolves,
       Called (ConfirmTransaction
                 \<lparr>cs_signature = sig, cs_blockhash = blockhash latest,
                  cs_lastValidBlockHeight = lastValidBlockHeight latest\<rparr> Confirmed) Resolves],
      Inr ())"
    using sendAndConfirmAll_all_resolve
      [of "[signedTx]" h "\<lambda>_. raw" "\<lambda>_. sig" latest] sent
    by simp
  show ?thesis
    unfolding initializeProposal_ready [OF ready]
      initializeProposal_body_cases [OF bound]
    using built all
    by (simp add: proposalParams_def Let_def)
qed

text \<open>
  With the two identifiers declared, a run that passes the guard and resolves fetches
  the blockhash once, before the two signatures; the transaction signed carries the
  fetched blockhash; every transaction the wallet returns is serialized and sent with
  \<open>skipPreflight\<close> true and confirmed with its signature, the fetched blockhash and
  the fetched \<open>lastValidBlockHeight\<close> at commitment \<open>confirmed\<close>.
\<close>

lemma declared_run_uses_one_blockhash:
  assumes ready: "wallet h = Some w" "w_publicKey w = Some walletKey"
    "w_signAllTransactions w = Some signAll"
    "tokenOf (hook_daoTokens h) ''baseToken'' = Some baseToken"
    "tokenOf (hook_daoTokens h) ''quoteToken'' = Some quoteToken"
    "daoTreasuryKey h = Some treasuryKey" "program h = Some prog"
    and bound: "failAmm h = Some fa" "passAmm h = Some pa"
    and resolved: "initializeProposal h url ins = (t, Inr ())"
  shows "\<exists>latest createIx initIx tx signed signedTxs before raw_of sig_of.
      getLatestBlockhash (connection h) = Inr latest
    \<and> tx = \<lparr>instructions = [createIx, initIx], feePayer = Some walletKey,
             recentBlockhash = Some (blockhash latest), signatures = []\<rparr>
    \<and> Transaction_sign h tx (Keypair_generate h) = Inr signed
    \<and> signAll [signed] = Inr signedTxs
    \<and> t = before
          @ [Called GetLatestBlockhash Resolves,
             Called (SignTransaction tx (Keypair_generate h)) Resolves,
             Called (SignAllTransactions [signed]) Resolves]
          @ concat (map (\<lambda>stx. [Called (Serialize stx) Resolves,
                                 Called (SendRawTransaction (raw_of stx)
                                           \<lparr>skipPreflight = True\<rparr>) Resolves]) signedTxs)
          @ map (\<lambda>stx. Called (ConfirmTransaction
                                 \<lparr>cs_signature = sig_of stx, cs_blockhash = blockhash latest,
                                  cs_lastValidBlockHeight = lastValidBlockHeight latest\<rparr>
                                 Confirmed) Resolves) signedTxs
    \<and> (\<forall>ev\<in>set before. \<forall>outcome. ev \<noteq> Called GetLatestBlockhash outcome)
    \<and> (\<forall>stx\<in>set signedTxs.
          Transaction_serialize h stx = Inr (raw_of stx)
          \<and> sendRawTransaction (connection h) (raw_of stx) \<lparr>skipPreflight = True\<rparr>
              = Inr (sig_of stx))
    \<and> length (filter (\<lambda>ev. \<exists>outcome. ev = Called GetLatestBlockhash outcome) t) = 1"
proof -
  have body: "initializeProposal_body h prog walletKey signAll url ins = (t, Inr ())"
    using resolved initializeProposal_ready [OF ready] by simp
  let ?kp = "Keypair_generate h"
  let ?accts = "\<lparr>acc_proposal = kp_publicKey ?kp, acc_dao = daoKey h,
                    acc_failAmm = fa, acc_passAmm = pa, acc_proposer = walletKey\<rparr>"
  note table = initializeProposal_body_cases [OF bound, of prog walletKey signAll url ins]
  from body obtain createIx where
    c: "account_proposal_createInstruction prog ?kp 1500 = Inr createIx"
    unfolding table Let_def by (auto split: sum.splits)
  from body c obtain initIx where
    i: "methods_initializeProposal_instruction prog (proposalParams url ins) ?accts = Inr initIx"
    unfolding table Let_def by (auto split: sum.splits)
  from body c i obtain latest where l: "getLatestBlockhash (connection h) = Inr latest"
    unfolding table Let_def by (auto split: sum.splits)
  let ?tx = "\<lparr>instructions = [createIx, initIx], feePayer = Some walletKey,
             recentBlockhash = Some (blockhash latest), signatures = []\<rparr>"
  from body c i l obtain signed where sk: "Transaction_sign h ?tx ?kp = Inr signed"
    unfolding table Let_def by (auto split: sum.splits)
  from body c i l sk obtain signedTxs where sg: "signAll [signed] = Inr signedTxs"
    unfolding table Let_def by (auto split: sum.splits)
  let ?before = "[Called (CreateInstruction ?kp 1500) Resolves,
            Called (InitializeProposalInstruction (proposalParams url ins) ?accts) Resolves]"
  from body c i l sk sg have
    tr: "t = ?before
          @ [Called GetLatestBlockhash Resolves,
             Called (SignTransaction ?tx ?kp) Resolves,
             Called (SignAllTransactions [signed]) Resolves]
          @ fst (sendAndConfirmAll h latest signedTxs)"
    and ok: "snd (sendAndConfirmAll h latest signedTxs) = Inr ()"
    unfolding table Let_def by auto
  let ?raw_of = "\<lambda>stx. projr (Transaction_serialize h stx)"
  let ?sig_of = "\<lambda>stx. projr (sendRawTransaction (connection h) (?raw_of stx)
                                  \<lparr>skipPreflight = True\<rparr>)"
  have each: "\<forall>stx\<in>set signedTxs. Transaction_serialize h stx = Inr (?raw_of stx)
     \<and> sendRawTransaction (connection h) (?raw_of stx) \<lparr>skipPreflight = True\<rparr>
         = Inr (?sig_of stx)
     \<and> confirmTransaction (connection h)
          \<lparr>cs_signature = ?sig_of stx, cs_blockhash = blockhash latest,
           cs_lastValidBlockHeight = lastValidBlockHeight latest\<rparr> Confirmed = Inr ()"
  proof
    fix stx assume "stx \<in> set signedTxs"
    from sendAndConfirmAll_resolved [OF ok this]
    show "Transaction_serialize h stx = Inr (?raw_of stx)
     \<and> sendRawTransaction (connection h) (?raw_of stx) \<lparr>skipPreflight = True\<rparr>
         = Inr (?sig_of stx)
     \<and> confirmTransaction (connection h)
          \<lparr>cs_signature = ?sig_of stx, cs_blockhash = blockhash latest,
           cs_lastValidBlockHeight = lastValidBlockHeight latest\<rparr> Confirmed = Inr ()"
      by auto
  qed
  note rest = sendAndConfirmAll_all_resolve [OF each]
  have whole: "t = ?before
          @ [Called GetLatestBlockhash Resolves,
             Called (SignTransaction ?tx ?kp) Resolves,
             Called (SignAllTransactions [signed]) Resolves]
          @ concat (map (\<lambda>stx. [Called (Serialize stx) Resolves,
                                 Called (SendRawTransaction (?raw_of stx)
                                           \<lparr>skipPreflight = True\<rparr>) Resolves]) signedTxs)
          @ map (\<lambda>stx. Called (ConfirmTransaction
                                 \<lparr>cs_signature = ?sig_of stx, cs_blockhash = blockhash latest,
                                  cs_lastValidBlockHeight = lastValidBlockHeight latest\<rparr>
                                 Confirmed) Resolves) signedTxs"
    unfolding tr rest by simp
  have once: "length (filter (\<lambda>ev. \<exists>outcome. ev = Called GetLatestBlockhash outcome) t) = 1"
    unfolding whole by (simp add: filter_concat comp_def filter_map)
  show ?thesis
    using l sk sg whole each once
    by (intro exI [of _ latest] exI [of _ createIx] exI [of _ initIx] exI [of _ ?tx]
          exI [of _ signed] exI [of _ signedTxs] exI [of _ ?before] exI [of _ ?raw_of]
          exI [of _ ?sig_of])
       simp
qed

text \<open>The run of the declaring module in the example deployment.\<close>

lemma declared_run_example:
  "initializeProposal example_hook_declared ''https://example.org/p'' example_instruction =
     ([Called (CreateInstruction example_keypair 1500) Resolves,
       Called (InitializeProposalInstruction
                 \<lparr>descriptionUrl = ''https://example.org/p'', instruction = example_instruction,
                  passLpTokensToLock = 0, failLpTokensToLock = 0, nonce = 0\<rparr>
                 \<lparr>acc_proposal = PublicKey ''fresh'', acc_dao = Some (PublicKey ''daoA''),
                  acc_failAmm = PublicKey ''failAmm'', acc_passAmm = PublicKey ''passAmm'',
                  acc_proposer = PublicKey ''alice''\<rparr>) Resolves,
       Called GetLatestBlockhash Resolves,
       Called (SignTransaction
                 \<lparr>instructions =
                    [\<lparr>ix_programId = PublicKey ''system'', ix_keys = [PublicKey ''fresh''],
                      ix_data = [1500]\<rparr>,
                     \<lparr>ix_programId = PublicKey ''autocrat'',
                      ix_keys = [PublicKey ''fresh'', PublicKey ''alice''], ix_data = [0]\<rparr>],
                  feePayer = Some (PublicKey ''alice''), recentBlockhash = Some ''hash1'',
                  signatures = []\<rparr> example_keypair) Resolves,
       Called (SignAllTransactions
                 [\<lparr>instructions =
                    [\<lparr>ix_programId = PublicKey ''system'', ix_keys = [PublicKey ''fresh''],
                      ix_data = [1500]\<rparr>,
                     \<lparr>ix_programId = PublicKey ''autocrat'',
                      ix_keys = [PublicKey ''fresh'', PublicKey ''alice''], ix_data = [0]\<rparr>],
                  feePayer = Some (PublicKey ''alice''), recentBlockhash = Some ''hash1'',
                  signatures = [PublicKey ''fresh'']\<rparr>]) Resolves,
       Called (Serialize
                 \<lparr>instructions =
                    [\<lparr>ix_programId = PublicKey ''system'', ix_keys = [PublicKey ''fresh''],
                      ix_data = [1500]\<rparr>,
                     \<lparr>ix_programId = PublicKey ''autocrat'',
                      ix_keys = [PublicKey ''fresh'', PublicKey ''alice''], ix_data = [0]\<rparr>],
                  feePayer = Some (PublicKey ''alice''), recentBlockhash = Some ''hash1'',
                  signatures = [PublicKey ''fresh'', PublicKey ''alice'']\<rparr>) Resolves,
       Called (SendRawTransaction (Wire [2]) \<lparr>skipPreflight = True\<rparr>) Resolves,
       Called (ConfirmTransaction
                 \<lparr>cs_signature = ''sig1'', cs_blockhash = ''hash1'',
                  cs_lastValidBlockHeight = 200\<rparr> Confirmed) Resolves],
      Inr ())"
  by (simp add: initializeProposal_def initializeProposal_body_def proposalAccounts_def
        proposalParams_def sendAndConfirmAll_def sendTask_def confirmTask_def rejections_def
        Promise_all_def andThen_def await_def Let_def new_Transaction_def Transaction_add_def
        example_hook_declared_def example_hook_def example_wallet_def example_tokens_def
        tokenOf_def example_program_def example_connection_def example_keypair_def)

section \<open>initializeProposal: one transaction, signed, sent, confirmed\<close>

text \<open>
  Claim C1. The claim has every call whose preconditions hold assemble one transaction
  of two instructions, sign it, submit it and await its confirmation. The module
  declares neither \<open>failAmm\<close> nor \<open>passAmm\<close> (lines 41-42). In every call whose
  preconditions hold (wallet with public key and \<open>signAllTransactions\<close>, base token,
  quote token, treasury key, program) the hook asks for the account-creation
  instruction of the generated keypair with size 1500 and, when that resolves, throws
  the ReferenceError \<open>failAmm is not defined\<close> while evaluating the accounts of the
  initialization instruction: the promise rejects, no transaction is assembled, and
  nothing is signed, submitted or confirmed. When the account-creation call rejects,
  the run ends with that rejection.
\<close>

theorem initializeProposal_throws_ReferenceError:
  assumes "wallet h = Some w" "w_publicKey w = Some walletKey"
    "w_signAllTransactions w = Some signAll"
    "tokenOf (hook_daoTokens h) ''baseToken'' = Some baseToken"
    "tokenOf (hook_daoTokens h) ''quoteToken'' = Some quoteToken"
    "daoTreasuryKey h = Some treasuryKey" "program h = Some prog"
    and "failAmm h = None"
  shows "initializeProposal h url ins =
     (case account_proposal_createInstruction prog (Keypair_generate h) 1500 of
        Inl e \<Rightarrow>
          ([Called (CreateInstruction (Keypair_generate h) 1500) (Rejects e)],
           Inl (Rejected e))
      | Inr createIx \<Rightarrow>
          ([Called (CreateInstruction (Keypair_generate h) 1500) Resolves],
           Inl (ReferenceError ''failAmm is not defined'')))"
  unfolding initializeProposal_ready [OF assms(1-7)]
  using initializeProposal_body_unbound [of h prog walletKey signAll url ins] assms(8)
  by simp

theorem initializeProposal_throws_ReferenceError_witness:
  "wallet example_hook = Some example_wallet
   \<and> w_publicKey example_wallet = Some (PublicKey ''alice'')
   \<and> w_signAllTransactions example_wallet \<noteq> None
   \<and> tokenOf (hook_daoTokens example_hook) ''baseToken'' = Some META
   \<and> tokenOf (hook_daoTokens example_hook) ''quoteToken'' = Some USDC
   \<and> daoTreasuryKey example_hook = Some (PublicKey ''treasury'')
   \<and> program example_hook = Some example_program
   \<and> failAmm example_hook = None
   \<and> initializeProposal example_hook ''https://example.org/p'' example_instruction =
       ([Called (CreateInstruction example_keypair 1500) Resolves],
        Inl (ReferenceError ''failAmm is not defined''))"
  using initializeProposal_throws_ReferenceError
    [where h = example_hook and w = example_wallet and walletKey = "PublicKey ''alice''"
       and signAll =
         "\<lambda>txs. Inr (map (\<lambda>tx. tx\<lparr>signatures := signatures tx @ [PublicKey ''alice'']\<rparr>) txs)"
       and baseToken = META and quoteToken = USDC
       and treasuryKey = "PublicKey ''treasury''" and prog = example_program
       and url = "''https://example.org/p''" and ins = example_instruction]
  by (simp add: example_hook_def example_wallet_def example_tokens_def tokenOf_def
        example_program_def example_keypair_def)

section \<open>initializeProposal: the blockhash\<close>



section \<open>createAmm and swap: errors of the delegated call\<close>

text \<open>
  Claim C3. When the guard passes and the operation that \<open>createAmm\<close> or \<open>swap\<close>
  wraps in its \<open>try\<close> block rejects (for \<open>createAmm\<close> the derivation of the
  proposal address or \<open>ammClient.createAmm\<close>, for \<open>swap\<close> \<open>ammClient.swap\<close>),
  the rejection is logged with \<open>console.error\<close> and then is the rejection of the
  method, and nothing follows the log. No rejection is swallowed, replaced or recovered
  from: whenever any call of a run rejects, the run rejects with that very value, and
  after the rejected call the run does nothing but log it.
\<close>

theorem amm_errors_logged_and_rethrown:
  assumes "autocratProgram s = Some prog" "daoState s = Some st"
    "tokenOf (daoTokens s) ''baseToken'' = Some baseToken"
    "tokenOf (daoTokens s) ''quoteToken'' = Some quoteToken"
    "provider_wallet s = Some w"
  shows
   "(tok_publicKey baseToken \<noteq> tok_publicKey quoteToken
       \<and> account_mint_fetch prog (tok_publicKey baseToken) = Inr baseMint
       \<and> mint_supply baseMint = NumberValue (Finite 0)
       \<and> findProgramAddress s
            [Buffer_from ''proposal'', Buffer_from_toString proposalNumber] (programId prog)
           = Inr (proposalAddress, bump)
       \<and> amm_createAmm (ammClient s) proposalAddress
            (tok_publicKey baseToken) (tok_publicKey quoteToken)
            (twapInitialObservation st) pof uri proposalNumber
            (tok_publicKey baseToken) (tok_publicKey quoteToken)
            a (twapMaxObservationChangePerUpdate st) = Inl e
      \<longrightarrow> createAmm s pof uri proposalNumber symbol a =
            ([Called (MintFetch (tok_publicKey baseToken)) Resolves,
              Called (FindProgramAddress
                        [Buffer_from ''proposal'', Buffer_from_toString proposalNumber]
                        (programId prog)) Resolves,
              Called (AmmClient_createAmm proposalAddress
                        (tok_publicKey baseToken) (tok_publicKey quoteToken)
                        (twapInitialObservation st) pof uri proposalNumber
                        (tok_publicKey baseToken) (tok_publicKey quoteToken)
                        a (twapMaxObservationChangePerUpdate st)) (Rejects e),
              ConsoleError ''Error creating AMM:'' (Rejected e)],
             Inl (Rejected e)))
    \<and> (tok_publicKey baseToken \<noteq> tok_publicKey quoteToken
       \<and> account_mint_fetch prog (tok_publicKey baseToken) = Inr baseMint
       \<and> mint_supply baseMint = NumberValue (Finite 0)
       \<and> findProgramAddress s
            [Buffer_from ''proposal'', Buffer_from_toString proposalNumber] (programId prog)
           = Inl e
      \<longrightarrow> createAmm s pof uri proposalNumber symbol a =
            ([Called (MintFetch (tok_publicKey baseToken)) Resolves,
              Called (FindProgramAddress
                        [Buffer_from ''proposal'', Buffer_from_toString proposalNumber]
                        (programId prog)) (Rejects e),
              ConsoleError ''Error creating AMM:'' (Rejected e)],
             Inl (Rejected e)))
    \<and> (findProgramAddress s
          [Buffer_from ''amm__'', toBuffer (tok_publicKey baseToken),
           toBuffer (tok_publicKey quoteToken)] (AMM_PROGRAM_ID s) = Inr (ammPublicKey, bump')
       \<and> amm_getAmm (ammClient s) ammPublicKey = Inr amm
       \<and> amm_swap (ammClient s) (amm_publicKey amm) swapType inputAmount outputAmountMin = Inl e
      \<longrightarrow> swap s swapType inputAmount outputAmountMin =
            ([Called (FindProgramAddress
                        [Buffer_from ''amm__'', toBuffer (tok_publicKey baseToken),
                         toBuffer (tok_publicKey quoteToken)] (AMM_PROGRAM_ID s)) Resolves,
              Called (AmmClient_getAmm ammPublicKey) Resolves,
              Called (AmmClient_swap (amm_publicKey amm) swapType inputAmount outputAmountMin)
                (Rejects e),
              ConsoleError ''Error swapping tokens:'' (Rejected e)],
             Inl (Rejected e)))
    \<and> (fst (createAmm s pof uri proposalNumber symbol a) = pre @ Called c (Rejects r) # post
      \<longrightarrow> snd (createAmm s pof uri proposalNumber symbol a) = Inl (Rejected r)
          \<and> (\<forall>ev\<in>set post. \<exists>m. ev = ConsoleError m (Rejected r)))
    \<and> (fst (swap s swapType inputAmount outputAmountMin) = pre' @ Called c' (Rejects r') # post'
      \<longrightarrow> snd (swap s swapType inputAmount outputAmountMin) = Inl (Rejected r')
          \<and> (\<forall>ev\<in>set post'. \<exists>m. ev = ConsoleError m (Rejected r')))"
proof -
  note cr = createAmm_cases [OF assms, of pof uri proposalNumber symbol a]
  note sw = swap_cases [OF assms, of swapType inputAmount outputAmountMin]
  have one: "createAmm s pof uri proposalNumber symbol a =
            ([Called (MintFetch (tok_publicKey baseToken)) Resolves,
              Called (FindProgramAddress
                        [Buffer_from ''proposal'', Buffer_from_toString proposalNumber]
                        (programId prog)) Resolves,
              Called (AmmClient_createAmm proposalAddress
                        (tok_publicKey baseToken) (tok_publicKey quoteToken)
                        (twapInitialObservation st) pof uri proposalNumber
                        (tok_publicKey baseToken) (tok_publicKey quoteToken)
                        a (twapMaxObservationChangePerUpdate st)) (Rejects e),
              ConsoleError ''Error creating AMM:'' (Rejected e)],
             Inl (Rejected e))"
    if "tok_publicKey baseToken \<noteq> tok_publicKey quoteToken"
       "account_mint_fetch prog (tok_publicKey baseToken) = Inr baseMint"
       "mint_supply baseMint = NumberValue (Finite 0)"
       "findProgramAddress s
            [Buffer_from ''proposal'', Buffer_from_toString proposalNumber] (programId prog)
           = Inr (proposalAddress, bump)"
       "amm_createAmm (ammClient s) proposalAddress
            (tok_publicKey baseToken) (tok_publicKey quoteToken)
            (twapInitialObservation st) pof uri proposalNumber
            (tok_publicKey baseToken) (tok_publicKey quoteToken)
            a (twapMaxObservationChangePerUpdate st) = Inl e"
    using that by (simp add: cr createAmm_try_cases)
  have two: "createAmm s pof uri proposalNumber symbol a =
            ([Called (MintFetch (tok_publicKey baseToken)) Resolves,
              Called (FindProgramAddress
                        [Buffer_from ''proposal'', Buffer_from_toString proposalNumber]
                        (programId prog)) (Rejects e),
              ConsoleError ''Error creating AMM:'' (Rejected e)],
             Inl (Rejected e))"
    if "tok_publicKey baseToken \<noteq> tok_publicKey quoteToken"
       "account_mint_fetch prog (tok_publicKey baseToken) = Inr baseMint"
       "mint_supply baseMint = NumberValue (Finite 0)"
       "findProgramAddress s
            [Buffer_from ''proposal'', Buffer_from_toString proposalNumber] (programId prog)
           = Inl e"
    using that by (simp add: cr createAmm_try_cases)
  have three: "swap s swapType inputAmount outputAmountMin =
            ([Called (FindProgramAddress
                        [Buffer_from ''amm__'', toBuffer (tok_publicKey baseToken),
                         toBuffer (tok_publicKey quoteToken)] (AMM_PROGRAM_ID s)) Resolves,
              Called (AmmClient_getAmm ammPublicKey) Resolves,
              Called (AmmClient_swap (amm_publicKey amm) swapType inputAmount outputAmountMin)
                (Rejects e),
              ConsoleError ''Error swapping tokens:'' (Rejected e)],
             Inl (Rejected e))"
    if "findProgramAddress s
          [Buffer_from ''amm__'', toBuffer (tok_publicKey baseToken),
           toBuffer (tok_publicKey quoteToken)] (AMM_PROGRAM_ID s) = Inr (ammPublicKey, bump')"
       "amm_getAmm (ammClient s) ammPublicKey = Inr amm"
       "amm_swap (ammClient s) (amm_publicKey amm) swapType inputAmount outputAmountMin = Inl e"
    using that by (simp add: sw)
  show ?thesis
    using one two three
      createAmm_settles_at_rejection [of s pof uri proposalNumber symbol a pre c r post]
      swap_settles_at_rejection [of s swapType inputAmount outputAmountMin pre' c' r' post']
    by blast
qed

lemma example_state_ready:
  "autocratProgram example_state = Some example_program"
  "daoState example_state = Some example_daoState"
  "tokenOf (daoTokens example_state) ''baseToken'' = Some META"
  "tokenOf (daoTokens example_state) ''quoteToken'' = Some USDC"
  "provider_wallet example_state = Some example_wallet"
  by (simp_all add: example_state_def example_tokens_def tokenOf_def)

theorem amm_errors_logged_and_rethrown_witness:
  "createAmm example_state_rejecting ''pof'' ''uri'' (Finite 1) ''META'' (Finite 2) =
     ([Called (MintFetch (PublicKey ''metaMint'')) Resolves,
       Called (FindProgramAddress
                 [Buffer_from ''proposal'', Buffer_from_toString (Finite 1)]
                 (PublicKey ''autocrat'')) Resolves,
       Called (AmmClient_createAmm (PublicKey ''derived'')
                 (PublicKey ''metaMint'') (PublicKey ''usdcMint'') 100 ''pof'' ''uri'' (Finite 1)
                 (PublicKey ''metaMint'') (PublicKey ''usdcMint'') (Finite 2) 5)
         (Rejects (SdkError ''simulation failed'')),
       ConsoleError ''Error creating AMM:'' (Rejected (SdkError ''simulation failed''))],
      Inl (Rejected (SdkError ''simulation failed'')))
   \<and> swap example_state_rejecting Buy (Finite 10) (Finite 9) =
     ([Called (FindProgramAddress
                 [Buffer_from ''amm__'', toBuffer (PublicKey ''metaMint''),
                  toBuffer (PublicKey ''usdcMint'')] (PublicKey ''ammProgram'')) Resolves,
       Called (AmmClient_getAmm (PublicKey ''derived'')) Resolves,
       Called (AmmClient_swap (PublicKey ''derived'') Buy (Finite 10) (Finite 9))
         (Rejects (SdkError ''simulation failed'')),
       ConsoleError ''Error swapping tokens:'' (Rejected (SdkError ''simulation failed''))],
      Inl (Rejected (SdkError ''simulation failed'')))
   \<and> createAmm example_state_no_address ''pof'' ''uri'' (Finite 1) ''META'' (Finite 2) =
     ([Called (MintFetch (PublicKey ''metaMint'')) Resolves,
       Called (FindProgramAddress
                 [Buffer_from ''proposal'', Buffer_from_toString (Finite 1)]
                 (PublicKey ''autocrat'')) (Rejects (SdkError ''no viable nonce'')),
       ConsoleError ''Error creating AMM:'' (Rejected (SdkError ''no viable nonce''))],
      Inl (Rejected (SdkError ''no viable nonce'')))
   \<and> snd (swap example_state_no_amm Buy (Finite 10) (Finite 9))
       = Inl (Rejected (SdkError ''account does not exist''))"
proof -
  have rejecting:
    "autocratProgram example_state_rejecting = Some example_program"
    "daoState example_state_rejecting = Some example_daoState"
    "tokenOf (daoTokens example_state_rejecting) ''baseToken'' = Some META"
    "tokenOf (daoTokens example_state_rejecting) ''quoteToken'' = Some USDC"
    "provider_wallet example_state_rejecting = Some example_wallet"
    using example_state_ready by (simp_all add: example_state_rejecting_def)
  have no_address:
    "autocratProgram example_state_no_address = Some example_program"
    "daoState example_state_no_address = Some example_daoState"
    "tokenOf (daoTokens example_state_no_address) ''baseToken'' = Some META"
    "tokenOf (daoTokens example_state_no_address) ''quoteToken'' = Some USDC"
    "provider_wallet example_state_no_address = Some example_wallet"
    using example_state_ready by (simp_all add: example_state_no_address_def)
  have no_amm:
    "autocratProgram example_state_no_amm = Some example_program"
    "daoState example_state_no_amm = Some example_daoState"
    "tokenOf (daoTokens example_state_no_amm) ''baseToken'' = Some META"
    "tokenOf (daoTokens example_state_no_amm) ''quoteToken'' = Some USDC"
    "provider_wallet example_state_no_amm = Some example_wallet"
    using example_state_ready by (simp_all add: example_state_no_amm_def)
  have trace_no_amm: "fst (swap example_state_no_amm Buy (Finite 10) (Finite 9)) =
      [Called (FindProgramAddress
                 [Buffer_from ''amm__'', toBuffer (PublicKey ''metaMint''),
                  toBuffer (PublicKey ''usdcMint'')] (PublicKey ''ammProgram'')) Resolves]
      @ Called (AmmClient_getAmm (PublicKey ''derived''))
          (Rejects (SdkError ''account does not exist'')) # []"
    unfolding swap_cases [OF no_amm]
    by (simp add: example_state_no_amm_def example_state_def
          example_no_amm_client_def example_ammClient_def META_def USDC_def)
  show ?thesis
    using amm_errors_logged_and_rethrown
      [OF rejecting, where baseMint = "\<lparr>mint_supply = NumberValue (Finite 0)\<rparr>"
         and proposalNumber = "Finite 1" and proposalAddress = "PublicKey ''derived''"
         and bump = 255 and pof = "''pof''" and uri = "''uri''" and a = "Finite 2"
         and e = "SdkError ''simulation failed''" and symbol = "''META''"
         and ammPublicKey = "PublicKey ''derived''" and bump' = 255
         and amm = "\<lparr>amm_publicKey = PublicKey ''derived''\<rparr>"
         and swapType = Buy and inputAmount = "Finite 10" and outputAmountMin = "Finite 9"]
      amm_errors_logged_and_rethrown
      [OF no_address, where baseMint = "\<lparr>mint_supply = NumberValue (Finite 0)\<rparr>"
         and proposalNumber = "Finite 1" and pof = "''pof''" and uri = "''uri''"
         and a = "Finite 2" and e = "SdkError ''no viable nonce''" and symbol = "''META''"]
      amm_errors_logged_and_rethrown
      [OF no_amm, where swapType = Buy and inputAmount = "Finite 10"
         and outputAmountMin = "Finite 9"
         and pre' = "[Called (FindProgramAddress
                 [Buffer_from ''amm__'', toBuffer (PublicKey ''metaMint''),
                  toBuffer (PublicKey ''usdcMint'')] (PublicKey ''ammProgram'')) Resolves]"
         and c' = "AmmClient_getAmm (PublicKey ''derived'')"
         and r' = "SdkError ''account does not exist''" and post' = "[]"]
      trace_no_amm
    by (simp add: example_state_rejecting_def example_state_no_address_def example_state_def
          example_rejecting_ammClient_def example_program_def example_daoState_def
          META_def USDC_def)
qed

section \<open>Where errors come from\<close>

text \<open>
  Claim C4, amended. Every rejection of \<open>swap\<close>, and every rejection of
  \<open>initializeProposal\<close> in a module where \<open>failAmm\<close> and \<open>passAmm\<close> are bound,
  is the rejection of an SDK, RPC or wallet call the run made. \<open>createAmm\<close> rejects
  with the rejection of such a call or with one of two errors of its own: when the
  guard passes and the base and quote tokens have the same public key, it makes no call
  and throws \<open>Base and quote mints must be different\<close>; when they differ and the
  fetched base mint's \<open>supply\<close> is not the number 0, it throws
  \<open>Base mint must have a supply of 0\<close>.
\<close>

theorem errors_come_from_calls_or_createAmm_checks:
  "(snd (swap s swapType inputAmount outputAmountMin) = Inl x
      \<longrightarrow> (\<exists>c e. x = Rejected e
            \<and> Called c (Rejects e) \<in> set (fst (swap s swapType inputAmount outputAmountMin))))
   \<and> (failAmm h \<noteq> None \<and> passAmm h \<noteq> None \<and> snd (initializeProposal h url ins) = Inl y
      \<longrightarrow> (\<exists>c e. y = Rejected e
            \<and> Called c (Rejects e) \<in> set (fst (initializeProposal h url ins))))
   \<and> (snd (createAmm s pof uri proposalNumber symbol a) = Inl z
      \<longrightarrow> (\<exists>c e. z = Rejected e
            \<and> Called c (Rejects e) \<in> set (fst (createAmm s pof uri proposalNumber symbol a)))
          \<or> z = Error ''Base and quote mints must be different''
          \<or> z = Error ''Base mint must have a supply of 0'')
   \<and> (autocratProgram s = Some prog \<and> daoState s = Some st
       \<and> tokenOf (daoTokens s) ''baseToken'' = Some baseToken
       \<and> tokenOf (daoTokens s) ''quoteToken'' = Some quoteToken
       \<and> provider_wallet s = Some w
       \<and> tok_publicKey baseToken = tok_publicKey quoteToken
      \<longrightarrow> createAmm s pof uri proposalNumber symbol a =
            ([], Inl (Error ''Base and quote mints must be different'')))
   \<and> (autocratProgram s = Some prog \<and> daoState s = Some st
       \<and> tokenOf (daoTokens s) ''baseToken'' = Some baseToken
       \<and> tokenOf (daoTokens s) ''quoteToken'' = Some quoteToken
       \<and> provider_wallet s = Some w
       \<and> tok_publicKey baseToken \<noteq> tok_publicKey quoteToken
       \<and> account_mint_fetch prog (tok_publicKey baseToken) = Inr baseMint
       \<and> mint_supply baseMint \<noteq> NumberValue (Finite 0)
      \<longrightarrow> createAmm s pof uri proposalNumber symbol a =
            ([Called (MintFetch (tok_publicKey baseToken)) Resolves],
             Inl (Error ''Base mint must have a supply of 0'')))"
proof -
  have hook: "\<exists>c e. y = Rejected e
            \<and> Called c (Rejects e) \<in> set (fst (initializeProposal h url ins))"
    if b: "failAmm h \<noteq> None" "passAmm h \<noteq> None"
      and err: "snd (initializeProposal h url ins) = Inl y"
  proof (cases h rule: hook_ready_or_not)
    case not_ready
    from hook_not_ready [OF this, of url ins] err show ?thesis by simp
  next
    case (ready w walletKey signAll baseToken quoteToken treasuryKey prog)
    from b obtain fa pa where bound: "failAmm h = Some fa" "passAmm h = Some pa" by auto
    show ?thesis
      using err initializeProposal_body_error_origin [OF bound, of prog walletKey signAll url ins y]
      unfolding initializeProposal_ready [OF ready] by simp
  qed
  have equal: "createAmm s pof uri proposalNumber symbol a =
            ([], Inl (Error ''Base and quote mints must be different''))"
    if "autocratProgram s = Some prog" "daoState s = Some st"
       "tokenOf (daoTokens s) ''baseToken'' = Some baseToken"
       "tokenOf (daoTokens s) ''quoteToken'' = Some quoteToken"
       "provider_wallet s = Some w"
       "tok_publicKey baseToken = tok_publicKey quoteToken"
    using createAmm_cases [OF that(1-5), of pof uri proposalNumber symbol a] that(6) by simp
  have minted: "createAmm s pof uri proposalNumber symbol a =
            ([Called (MintFetch (tok_publicKey baseToken)) Resolves],
             Inl (Error ''Base mint must have a supply of 0''))"
    if "autocratProgram s = Some prog" "daoState s = Some st"
       "tokenOf (daoTokens s) ''baseToken'' = Some baseToken"
       "tokenOf (daoTokens s) ''quoteToken'' = Some quoteToken"
       "provider_wallet s = Some w"
       "tok_publicKey baseToken \<noteq> tok_publicKey quoteToken"
       "account_mint_fetch prog (tok_publicKey baseToken) = Inr baseMint"
       "mint_supply baseMint \<noteq> NumberValue (Finite 0)"
    using createAmm_cases [OF that(1-5), of pof uri proposalNumber symbol a] that(6-8) by simp
  show ?thesis
    using hook equal minted
      swap_error_origin [of s swapType inputAmount outputAmountMin x]
      createAmm_error_origin [of s pof uri proposalNumber symbol a z]
    by blast
qed

theorem errors_come_from_calls_or_createAmm_checks_witness:
  "(\<exists>c e. Rejected (SdkError ''account does not exist'') = Rejected e
      \<and> Called c (Rejects e) \<in> set (fst (swap example_state_bn_supply Buy (Finite 10) (Finite 9))))
   \<and> (\<exists>c e. Rejected (SdkError ''blockhash unavailable'') = Rejected e
      \<and> Called c (Rejects e) \<in> set (fst (initializeProposal example_hook_rpc_down
             ''https://example.org/p'' example_instruction)))
   \<and> createAmm example_state_bn_supply ''pof'' ''uri'' (Finite 1) ''META'' (Finite 2) =
       ([Called (MintFetch (PublicKey ''metaMint'')) Resolves],
        Inl (Error ''Base mint must have a supply of 0''))"
proof -
  have ready:
    "autocratProgram example_state_bn_supply =
       Some (example_program\<lparr>account_mint_fetch := (\<lambda>mint. Inr \<lparr>mint_supply = BNValue 0\<rparr>)\<rparr>)"
    "daoState example_state_bn_supply = Some example_daoState"
    "tokenOf (daoTokens example_state_bn_supply) ''baseToken'' = Some META"
    "tokenOf (daoTokens example_state_bn_supply) ''quoteToken'' = Some USDC"
    "provider_wallet example_state_bn_supply = Some example_wallet"
    by (simp_all add: example_state_bn_supply_def example_state_def example_tokens_def
          tokenOf_def)
  have swapped: "snd (swap example_state_bn_supply Buy (Finite 10) (Finite 9))
      = Inl (Rejected (SdkError ''account does not exist''))"
    unfolding swap_cases [OF ready]
    by (simp add: example_state_bn_supply_def example_state_def
          example_no_amm_client_def example_ammClient_def)
  have hook_ready:
    "wallet example_hook_rpc_down = Some example_wallet"
    "w_publicKey example_wallet = Some (PublicKey ''alice'')"
    "w_signAllTransactions example_wallet =
       Some (\<lambda>txs. Inr (map (\<lambda>tx. tx\<lparr>signatures := signatures tx @ [PublicKey ''alice'']\<rparr>) txs))"
    "tokenOf (hook_daoTokens example_hook_rpc_down) ''baseToken'' = Some META"
    "tokenOf (hook_daoTokens example_hook_rpc_down) ''quoteToken'' = Some USDC"
    "daoTreasuryKey example_hook_rpc_down = Some (PublicKey ''treasury'')"
    "program example_hook_rpc_down = Some example_program"
    by (simp_all add: example_hook_rpc_down_def example_hook_declared_def example_hook_def
          example_wallet_def example_tokens_def tokenOf_def)
  have bound: "failAmm example_hook_rpc_down = Some (PublicKey ''failAmm'')"
    "passAmm example_hook_rpc_down = Some (PublicKey ''passAmm'')"
    by (simp_all add: example_hook_rpc_down_def example_hook_declared_def example_hook_def)
  have submitted: "snd (initializeProposal example_hook_rpc_down
        ''https://example.org/p'' example_instruction)
      = Inl (Rejected (SdkError ''blockhash unavailable''))"
    unfolding initializeProposal_ready [OF hook_ready] initializeProposal_body_cases [OF bound]
    by (simp add: example_hook_rpc_down_def example_hook_declared_def example_hook_def
          example_program_def example_connection_def Let_def)
  show ?thesis
    using errors_come_from_calls_or_createAmm_checks
      [where s = example_state_bn_supply and swapType = Buy and inputAmount = "Finite 10"
         and outputAmountMin = "Finite 9"
         and x = "Rejected (SdkError ''account does not exist'')"
         and h = example_hook_rpc_down and url = "''https://example.org/p''"
         and ins = example_instruction
         and y = "Rejected (SdkError ''blockhash unavailable'')"
         and pof = "''pof''" and uri = "''uri''" and proposalNumber = "Finite 1"
         and symbol = "''META''" and a = "Finite 2"
         and prog = "example_program\<lparr>account_mint_fetch :=
                       (\<lambda>mint. Inr \<lparr>mint_supply = BNValue 0\<rparr>)\<rparr>"
         and st = example_daoState and baseToken = META and quoteToken = USDC
         and w = example_wallet and baseMint = "\<lparr>mint_supply = BNValue 0\<rparr>"]
      ready swapped submitted bound
    by (simp add: META_def USDC_def)
qed

text \<open>
  The claim as written says that no operation raises a validation error of its own.
  With the base and the quote token on one mint, \<open>createAmm\<close> rejects with an
  \<open>Error\<close> it builds itself, having made no SDK or RPC call at all.
\<close>

theorem createAmm_rejects_equal_mints_itself:
  "createAmm example_state_same_mint ''pof'' ''uri'' (Finite 1) ''META'' (Finite 2) =
     ([], Inl (Error ''Base and quote mints must be different''))"
  by (simp add: createAmm_def example_state_same_mint_def example_state_def tokenOf_def
        throw_def)

end
